theory Spec2Isabelle
  imports Main
begin

section \<open>JavaScript values\<close>

text \<open>
  The client of \<^verbatim>\<open>NodeJsClient.js\<close> handles values that come out of
  \<^verbatim>\<open>response.json()\<close> and arguments its callers pass. They are modelled by
  \<open>jsval\<close>. A number is carried as the integer it denotes (page numbers, record
  identifiers, time stamps in milliseconds); fractions are not represented. Strings are
  carried as their UTF-8 bytes. An object is the list of its own properties in the order
  \<^verbatim>\<open>Object.entries\<close> enumerates them; none of the values is a function, as in
  everything \<^verbatim>\<open>JSON.parse\<close> returns.
\<close>

datatype jsval =
    JUndefined
  | JNull
  | JBool bool
  | JNum int
  | JStr string
  | JArr "jsval list"
  | JObj "(string \<times> jsval) list"

type_synonym jsobj = "(string \<times> jsval) list"

text \<open>The truth value JavaScript gives a value in \<^verbatim>\<open>if (v)\<close>, \<^verbatim>\<open>!v\<close> and \<^verbatim>\<open>v && w\<close>.\<close>

fun truthy :: "jsval \<Rightarrow> bool" where
  "truthy JUndefined = False"
| "truthy JNull = False"
| "truthy (JBool b) = b"
| "truthy (JNum n) = (n \<noteq> 0)"
| "truthy (JStr s) = (s \<noteq> [])"
| "truthy (JArr vs) = True"
| "truthy (JObj kvs) = True"

text \<open>
  A value that is \<^verbatim>\<open>null\<close> or a string (\<open>username\<close>, \<open>password\<close>, the result of
  \<^verbatim>\<open>localStorage.getItem\<close>) is a \<open>string option\<close>; it is truthy when it is a
  non-empty string.
\<close>

fun truthyStr :: "string option \<Rightarrow> bool" where
  "truthyStr None = False"
| "truthyStr (Some s) = (s \<noteq> [])"

subsection \<open>Conversion to string\<close>

fun digitChar :: "nat \<Rightarrow> char" where
  "digitChar n = ''0123456789'' ! n"

fun natToString :: "nat \<Rightarrow> string" where
  "natToString n = (if n < 10 then [digitChar n] else natToString (n div 10) @ [digitChar (n mod 10)])"

declare natToString.simps [simp del]

fun decimal :: "int \<Rightarrow> string" where
  "decimal n = (if n < 0 then CHR ''-'' # natToString (nat (- n)) else natToString (nat n))"

text \<open>
  \<^verbatim>\<open>Number.prototype.toString\<close>: an integer of magnitude up to \<open>2 ^ 53\<close> is printed
  in plain decimal. Beyond that the digits are the shortest that read back as the same
  double (\<open>2 ^ 60\<close> is printed \<open>1152921504606847000\<close>) and from \<open>10 ^ 21\<close> on
  the notation has an exponent (\<open>1e+21\<close>); there the text is the host's, taken as the
  parameter \<open>host\<close>.
\<close>

definition numToString :: "(int \<Rightarrow> string) \<Rightarrow> int \<Rightarrow> string" where
  "numToString host n = (if \<bar>n\<bar> \<le> 9007199254740992 then decimal n else host n)"

fun nullish :: "jsval \<Rightarrow> bool" where
  "nullish JUndefined = True"
| "nullish JNull = True"
| "nullish v = False"

text \<open>
  \<open>toStr\<close> is the conversion a template literal, \<^verbatim>\<open>localStorage.setItem\<close> and
  \<^verbatim>\<open>URLSearchParams.append\<close> apply to a value; \<open>None\<close> stands for the
  \<^verbatim>\<open>TypeError\<close> it throws. An object is converted by its \<^verbatim>\<open>toString\<close> method:
  the inherited one gives \<open>[object Object]\<close>, but an own property of that name, which
  is not a function, hides it, \<^verbatim>\<open>valueOf\<close> returns the object itself, and the
  conversion throws. An array is joined with commas, its \<^verbatim>\<open>null\<close> and
  \<^verbatim>\<open>undefined\<close> elements printed as the empty string, and throws where an element
  does.
\<close>

fun toStr :: "(int \<Rightarrow> string) \<Rightarrow> jsval \<Rightarrow> string option"
  and joinElems :: "(int \<Rightarrow> string) \<Rightarrow> jsval list \<Rightarrow> string option" where
  "toStr host JUndefined = Some ''undefined''"
| "toStr host JNull = Some ''null''"
| "toStr host (JBool b) = Some (if b then ''true'' else ''false'')"
| "toStr host (JNum n) = Some (numToString host n)"
| "toStr host (JStr s) = Some s"
| "toStr host (JArr vs) = joinElems host vs"
| "toStr host (JObj kvs) =
     (if ''toString'' \<in> set (map fst kvs) then None else Some ''[object Object]'')"
| "joinElems host [] = Some []"
| "joinElems host (v # vs) =
     (case (if nullish v then Some [] else toStr host v) of
        None \<Rightarrow> None
      | Some t \<Rightarrow>
          if vs = [] then Some t
          else (case joinElems host vs of None \<Rightarrow> None | Some r \<Rightarrow> Some (t @ CHR '','' # r)))"

subsection \<open>Dates\<close>

text \<open>
  A \<^verbatim>\<open>Date\<close> object holds a time value in milliseconds or is an invalid date
  (time value \<^verbatim>\<open>NaN\<close>). In \<^verbatim>\<open>new Date(v)\<close> a string is parsed, a number, a
  boolean, \<^verbatim>\<open>null\<close> or \<^verbatim>\<open>undefined\<close> is converted to a number, and what cannot
  be read gives the invalid date. An object or an array is first made a primitive:
  \<^verbatim>\<open>valueOf\<close> returns the object itself, so its \<^verbatim>\<open>toString\<close> decides, and the
  string it gives is parsed; \<^verbatim>\<open>new Date(v)\<close> throws \<^verbatim>\<open>TypeError\<close> exactly where
  \<open>toStr\<close> does (\<open>None\<close>). Parsing a string is the host's \<^verbatim>\<open>Date.parse\<close>, taken
  as the parameter \<open>parse\<close> (\<open>None\<close> for \<^verbatim>\<open>NaN\<close>).
\<close>

datatype jsdate = Date int | InvalidDate

fun timeClip :: "int \<Rightarrow> jsdate" where
  "timeClip t = (if \<bar>t\<bar> > 8640000000000000 then InvalidDate else Date t)"

fun parsedDate :: "(string \<Rightarrow> int option) \<Rightarrow> string \<Rightarrow> jsdate" where
  "parsedDate parse s = (case parse s of None \<Rightarrow> InvalidDate | Some t \<Rightarrow> Date t)"

fun newDate :: "(int \<Rightarrow> string) \<Rightarrow> (string \<Rightarrow> int option) \<Rightarrow> jsval \<Rightarrow> jsdate option" where
  "newDate host parse JUndefined = Some InvalidDate"
| "newDate host parse JNull = Some (Date 0)"
| "newDate host parse (JBool b) = Some (Date (if b then 1 else 0))"
| "newDate host parse (JNum n) = Some (timeClip n)"
| "newDate host parse (JStr s) = Some (parsedDate parse s)"
| "newDate host parse (JArr vs) = map_option (parsedDate parse) (toStr host (JArr vs))"
| "newDate host parse (JObj kvs) = map_option (parsedDate parse) (toStr host (JObj kvs))"

subsection \<open>Objects and property order\<close>

text \<open>
  An object enumerates its array-index keys first, in ascending numeric order, then its
  other string keys in the order they were created. \<open>objSet\<close> is the assignment of one
  property as the object literal \<^verbatim>\<open>{page, page_size: pageSize, ...filters}\<close>
  performs it: an existing key keeps its place and takes the new value.
\<close>

fun isDigit :: "char \<Rightarrow> bool" where
  "isDigit c = (48 \<le> (of_char c :: nat) \<and> (of_char c :: nat) \<le> 57)"

fun digitsValue :: "string \<Rightarrow> nat" where
  "digitsValue cs = foldl (\<lambda>a c. 10 * a + ((of_char c :: nat) - 48)) 0 cs"

fun arrayIndex :: "string \<Rightarrow> nat option" where
  "arrayIndex k =
     (if k \<noteq> [] \<and> list_all isDigit k \<and> (k = ''0'' \<or> hd k \<noteq> CHR ''0'')
         \<and> length k \<le> 10 \<and> digitsValue k \<le> 4294967294
      then Some (digitsValue k) else None)"

fun insertIndex :: "nat \<Rightarrow> string \<Rightarrow> jsval \<Rightarrow> jsobj \<Rightarrow> jsobj" where
  "insertIndex i k v [] = [(k, v)]"
| "insertIndex i k v (p # ps) =
     (case arrayIndex (fst p) of
        Some j \<Rightarrow> if j < i then p # insertIndex i k v ps else (k, v) # p # ps
      | None \<Rightarrow> (k, v) # p # ps)"

fun replaceValue :: "string \<Rightarrow> jsval \<Rightarrow> jsobj \<Rightarrow> jsobj" where
  "replaceValue k v [] = []"
| "replaceValue k v (p # ps) = (if fst p = k then (k, v) # ps else p # replaceValue k v ps)"

fun objSet :: "string \<Rightarrow> jsval \<Rightarrow> jsobj \<Rightarrow> jsobj" where
  "objSet k v ps =
     (if k \<in> set (map fst ps) then replaceValue k v ps
      else case arrayIndex k of None \<Rightarrow> ps @ [(k, v)] | Some i \<Rightarrow> insertIndex i k v ps)"

declare arrayIndex.simps [simp del] objSet.simps [simp del]

fun objGet :: "jsobj \<Rightarrow> string \<Rightarrow> jsval" where
  "objGet ps k = (case map_of ps k of None \<Rightarrow> JUndefined | Some v \<Rightarrow> v)"

fun spread :: "jsobj \<Rightarrow> jsobj \<Rightarrow> jsobj" where
  "spread [] target = target"
| "spread (p # ps) target = spread ps (objSet (fst p) (snd p) target)"

subsection \<open>URL-encoded query strings\<close>

text \<open>
  \<^verbatim>\<open>URLSearchParams.toString()\<close> serialises each pair as \<open>name=value\<close>, joined by
  \<open>&\<close>; a byte is kept when it is an ASCII letter or digit or one of \<open>* - . _\<close>, a space
  becomes \<open>+\<close>, any other byte becomes \<open>%XX\<close> in upper-case hexadecimal.
\<close>

fun hexDigit :: "nat \<Rightarrow> char" where
  "hexDigit n = ''0123456789ABCDEF'' ! n"

fun formKeep :: "char \<Rightarrow> bool" where
  "formKeep c =
     (let n = (of_char c :: nat)
      in (48 \<le> n \<and> n \<le> 57) \<or> (65 \<le> n \<and> n \<le> 90) \<or> (97 \<le> n \<and> n \<le> 122)
         \<or> n = 42 \<or> n = 45 \<or> n = 46 \<or> n = 95)"

fun encodeByte :: "char \<Rightarrow> string" where
  "encodeByte c =
     (if c = CHR '' '' then ''+''
      else if formKeep c then [c]
      else [CHR ''%'', hexDigit ((of_char c :: nat) div 16), hexDigit ((of_char c :: nat) mod 16)])"

fun formEncode :: "string \<Rightarrow> string" where
  "formEncode s = concat (map encodeByte s)"

fun joinAmp :: "string list \<Rightarrow> string" where
  "joinAmp [] = []"
| "joinAmp [s] = s"
| "joinAmp (s # t # ts) = s @ CHR ''&'' # joinAmp (t # ts)"

text \<open>
  The loop over \<^verbatim>\<open>Object.entries(params)\<close>: \<^verbatim>\<open>append\<close> converts each value to a
  string, and throws where that conversion does.
\<close>

fun encodePairs :: "(int \<Rightarrow> string) \<Rightarrow> jsobj \<Rightarrow> string list option" where
  "encodePairs host [] = Some []"
| "encodePairs host (p # ps) =
     (case toStr host (snd p) of
        None \<Rightarrow> None
      | Some t \<Rightarrow>
          (case encodePairs host ps of
             None \<Rightarrow> None
           | Some ts \<Rightarrow> Some ((formEncode (fst p) @ CHR ''='' # formEncode t) # ts)))"

definition queryString :: "(int \<Rightarrow> string) \<Rightarrow> jsobj \<Rightarrow> string option" where
  "queryString host ps = map_option joinAmp (encodePairs host ps)"

subsection \<open>Reading a query string back\<close>



section \<open>The environment of the client\<close>

text \<open>
  What \<^verbatim>\<open>fetch\<close> resolves to: the promise rejects (no response arrived), or a
  response arrives with its status, its body as text and its body decoded as JSON
  (\<open>None\<close> when \<^verbatim>\<open>response.json()\<close> rejects because the body is not JSON).
  The client reads the JSON of a response with \<^verbatim>\<open>response.ok\<close>, a status from 200
  to 299, and the text of any other.
\<close>

record response =
  status :: nat
  bodyText :: string
  bodyJson :: "jsval option"

definition ok :: "response \<Rightarrow> bool" where
  "ok r = (200 \<le> status r \<and> status r \<le> 299)"

datatype outcome = Rejects | Responds response

text \<open>
  A call of \<^verbatim>\<open>fetch(url, options)\<close> as the network sees it. The body is recorded
  as the value handed to \<^verbatim>\<open>JSON.stringify\<close>.
\<close>

record http_request =
  reqUrl :: string
  reqMethod :: string
  reqHeaders :: "(string \<times> string) list"
  reqBody :: "jsval option"

text \<open>
  The world outside the client object: the clock read by \<^verbatim>\<open>new Date()\<close> (in
  milliseconds), the global \<^verbatim>\<open>localStorage\<close> (\<open>None\<close> where
  \<^verbatim>\<open>typeof localStorage\<close> is \<^verbatim>\<open>'undefined'\<close>, as under Node.js), the host's
  \<^verbatim>\<open>Date.parse\<close>, \<^verbatim>\<open>Date.prototype.toISOString\<close> and its text of the large
  numbers, the outcomes the coming calls of \<^verbatim>\<open>fetch\<close> will have (each with the time
  it takes), and the calls of \<^verbatim>\<open>fetch\<close> made so far, whatever became of them: a
  call the host refuses to transmit has the outcome \<open>Rejects\<close>. The store accepts every
  write. Output to the console is not modelled.
\<close>

record world =
  clock :: int
  localStorage :: "(string \<rightharpoonup> string) option"
  dateParse :: "string \<Rightarrow> int option"
  dateISO :: "int \<Rightarrow> string"
  numberText :: "int \<Rightarrow> string"
  pending :: "(nat \<times> outcome) list"
  sent :: "http_request list"

text \<open>
  \<^verbatim>\<open>await fetch(...)\<close>: the call is recorded, the next outcome is consumed and the
  clock advances by the time the exchange took. With no outcome left the promise rejects.
\<close>

definition fetch :: "http_request \<Rightarrow> world \<Rightarrow> outcome \<times> world" where
  "fetch rq w =
     (case pending w of
        [] \<Rightarrow> (Rejects, w\<lparr>sent := sent w @ [rq]\<rparr>)
      | p # rest \<Rightarrow>
          (snd p, w\<lparr>clock := clock w + int (fst p), pending := rest, sent := sent w @ [rq]\<rparr>))"

section \<open>The client\<close>

text \<open>The fields of \<^verbatim>\<open>class ApiClient\<close>.\<close>

record client =
  baseUrl :: string
  username :: "string option"
  password :: "string option"
  token :: jsval
  tokenExpiry :: "jsdate option"

text \<open>
  Every \<^verbatim>\<open>throw\<close> and every rejected promise of the class is one of these values:
  \<^item> \<open>MissingCredentials\<close>: \<^verbatim>\<open>Error('No credentials provided for authentication')\<close>;
  \<^item> \<open>AuthenticationFailed s t\<close>: \<^verbatim>\<open>Error(`Authentication failed: ${status} - ${errorText}`)\<close>;
  \<^item> \<open>NotAuthenticated\<close>: \<^verbatim>\<open>Error('Not authenticated')\<close>;
  \<^item> \<open>RefreshFailed\<close>: \<^verbatim>\<open>Error('Authentication failed after token refresh')\<close>;
  \<^item> \<open>RequestFailed s t\<close>: \<^verbatim>\<open>Error(`API request failed: ${status} - ${errorText}`)\<close>;
  \<^item> \<open>FetchRejected\<close>: the rejection of \<^verbatim>\<open>fetch\<close> itself;
  \<^item> \<open>JsonSyntaxError\<close>: the rejection of \<^verbatim>\<open>response.json()\<close>;
  \<^item> \<open>TypeError\<close>: reading a property of \<^verbatim>\<open>null\<close>, or converting to a string an
    object that has no usable \<^verbatim>\<open>toString\<close>;
  \<^item> \<open>RangeError\<close>: \<^verbatim>\<open>toISOString()\<close> of an invalid date.
\<close>

datatype error =
    MissingCredentials
  | AuthenticationFailed nat string
  | NotAuthenticated
  | RefreshFailed
  | RequestFailed nat string
  | FetchRejected
  | JsonSyntaxError
  | TypeError
  | RangeError

definition bufferTime :: int where
  "bufferTime = 5 * 60 * 1000"

definition isTokenValid :: "client \<Rightarrow> world \<Rightarrow> bool" where
  "isTokenValid c w =
     (if \<not> truthy (token c) \<or> tokenExpiry c = None then False
      else case tokenExpiry c of
             None \<Rightarrow> False
           | Some InvalidDate \<Rightarrow> False
           | Some (Date t) \<Rightarrow> t - clock w > bufferTime)"

definition clearStoredToken :: "client \<Rightarrow> world \<Rightarrow> client \<times> world" where
  "clearStoredToken c w =
     (c\<lparr>token := JNull, tokenExpiry := None\<rparr>,
      case localStorage w of
        None \<Rightarrow> w
      | Some m \<Rightarrow> w\<lparr>localStorage := Some (m(''api_token'' := None, ''api_token_expiry'' := None))\<rparr>)"

definition loadStoredToken :: "client \<Rightarrow> world \<Rightarrow> client \<times> world" where
  "loadStoredToken c w =
     (case localStorage w of
        None \<Rightarrow> (c, w)
      | Some m \<Rightarrow>
          (case m ''api_token'' of
             None \<Rightarrow> (c, w)
           | Some storedToken \<Rightarrow>
               (case m ''api_token_expiry'' of
                  None \<Rightarrow> (c, w)
                | Some storedExpiry \<Rightarrow>
                    if storedToken \<noteq> [] \<and> storedExpiry \<noteq> [] then
                      (let c1 = c\<lparr>token := JStr storedToken,
                                  tokenExpiry := Some (parsedDate (dateParse w) storedExpiry)\<rparr>
                       in if \<not> isTokenValid c1 w then clearStoredToken c1 w else (c1, w))
                    else (c, w))))"

definition stripTrailingSlash :: "string \<Rightarrow> string" where
  "stripTrailingSlash b = (if b \<noteq> [] \<and> last b = CHR ''/'' then butlast b else b)"

definition constructor :: "string \<Rightarrow> string option \<Rightarrow> string option \<Rightarrow> world \<Rightarrow> client \<times> world" where
  "constructor b u p w =
     loadStoredToken
       \<lparr>baseUrl = stripTrailingSlash b, username = u, password = p,
        token = JNull, tokenExpiry = None\<rparr> w"

text \<open>
  \<^verbatim>\<open>_saveToken\<close>: the token is written first, as a string, and
  \<^verbatim>\<open>setItem\<close> throws where the token has none; \<^verbatim>\<open>toISOString()\<close> then throws on
  an invalid date, after the first entry has been written.
\<close>

definition saveToken :: "client \<Rightarrow> world \<Rightarrow> error option \<times> world" where
  "saveToken c w =
     (case localStorage w of
        None \<Rightarrow> (None, w)
      | Some m \<Rightarrow>
          (case tokenExpiry c of
             None \<Rightarrow> (None, w)
           | Some d \<Rightarrow>
               if truthy (token c) then
                 (case toStr (numberText w) (token c) of
                    None \<Rightarrow> (Some TypeError, w)
                  | Some text \<Rightarrow>
                      (let m1 = m(''api_token'' \<mapsto> text)
                       in case d of
                            InvalidDate \<Rightarrow> (Some RangeError, w\<lparr>localStorage := Some m1\<rparr>)
                          | Date t \<Rightarrow>
                              (None, w\<lparr>localStorage :=
                                         Some (m1(''api_token_expiry'' \<mapsto> dateISO w t))\<rparr>)))
               else (None, w)))"

text \<open>
  \<^verbatim>\<open>data.token\<close> and \<^verbatim>\<open>data.expires_at\<close>: reading a property of \<^verbatim>\<open>null\<close> throws,
  a property an object does not have is \<^verbatim>\<open>undefined\<close>, and so is either property on
  a number, a string, a boolean or an array.
\<close>

fun getProp :: "jsval \<Rightarrow> string \<Rightarrow> jsval option" where
  "getProp JUndefined k = None"
| "getProp JNull k = None"
| "getProp (JObj kvs) k = Some (objGet kvs k)"
| "getProp v k = Some JUndefined"

definition authRequest :: "client \<Rightarrow> http_request" where
  "authRequest c =
     \<lparr>reqUrl = baseUrl c @ ''/api-token-auth/'',
      reqMethod = ''POST'',
      reqHeaders = [(''Content-Type'', ''application/json'')],
      reqBody = Some (JObj [(''username'', case username c of None \<Rightarrow> JNull | Some u \<Rightarrow> JStr u),
                            (''password'', case password c of None \<Rightarrow> JNull | Some p \<Rightarrow> JStr p)])\<rparr>"

text \<open>
  Lines 120 to 125: the expiry is \<^verbatim>\<open>new Date(data.expires_at)\<close>, and where that
  throws, the \<^verbatim>\<open>catch\<close> branch sets it twenty-four hours after the current time.
\<close>

definition defaultLifetime :: int where
  "defaultLifetime = 24 * 60 * 60 * 1000"

definition expiryOf :: "jsval \<Rightarrow> world \<Rightarrow> jsdate" where
  "expiryOf expires_at w =
     (case newDate (numberText w) (dateParse w) expires_at of
        None \<Rightarrow> Date (clock w + defaultLifetime)
      | Some d \<Rightarrow> d)"

text \<open>
  The body of \<^verbatim>\<open>authenticate\<close> once a response with \<^verbatim>\<open>response.ok\<close> has arrived
  (lines 116 to 131).
\<close>

definition acceptToken :: "response \<Rightarrow> client \<Rightarrow> world \<Rightarrow> (error + bool) \<times> client \<times> world" where
  "acceptToken r c w =
     (case bodyJson r of
        None \<Rightarrow> (Inl JsonSyntaxError, c, w)
      | Some data \<Rightarrow>
          (case getProp data ''token'' of
             None \<Rightarrow> (Inl TypeError, c, w)
           | Some tok \<Rightarrow>
               (let c1 = c\<lparr>token := tok\<rparr>;
                    c2 = c1\<lparr>tokenExpiry :=
                           Some (expiryOf
                                  (case getProp data ''expires_at'' of None \<Rightarrow> JUndefined | Some e \<Rightarrow> e)
                                  w)\<rparr>
                in case saveToken c2 w of
                     (Some e, w1) \<Rightarrow> (Inl e, c2, w1)
                   | (None, w1) \<Rightarrow> (Inr True, c2, w1))))"

definition authenticate ::
  "string option \<Rightarrow> string option \<Rightarrow> client \<Rightarrow> world \<Rightarrow> (error + bool) \<times> client \<times> world" where
  "authenticate u p c w =
     (let c1 = (if truthyStr u then c\<lparr>username := u\<rparr> else c);
          c2 = (if truthyStr p then c1\<lparr>password := p\<rparr> else c1)
      in if \<not> truthyStr (username c2) \<or> \<not> truthyStr (password c2) then
           (Inl MissingCredentials, c2, w)
         else
           (case fetch (authRequest c2) w of
              (Rejects, w1) \<Rightarrow> (Inl FetchRejected, c2, w1)
            | (Responds r, w1) \<Rightarrow>
                if ok r then acceptToken r c2 w1
                else (Inl (AuthenticationFailed (status r) (bodyText r)), c2, w1)))"

definition ensureAuthenticated :: "client \<Rightarrow> world \<Rightarrow> bool \<times> client \<times> world" where
  "ensureAuthenticated c w =
     (if isTokenValid c w then (True, c, w)
      else case authenticate None None c w of
             (Inl e, c1, w1) \<Rightarrow> (False, c1, w1)
           | (Inr b, c1, w1) \<Rightarrow> (b, c1, w1))"

text \<open>
  \<^verbatim>\<open>getHeaders\<close>: the template literal \<^verbatim>\<open>`Token ${this.token}`\<close> throws where the
  token has no string (\<open>None\<close>).
\<close>

definition getHeaders :: "(int \<Rightarrow> string) \<Rightarrow> client \<Rightarrow> (string \<times> string) list option" where
  "getHeaders host c =
     (case toStr host (token c) of
        None \<Rightarrow> None
      | Some text \<Rightarrow>
          Some [(''Authorization'', ''Token '' @ text),
                (''Content-Type'', ''application/json'')])"

definition stripLeadingSlash :: "string \<Rightarrow> string" where
  "stripLeadingSlash e = (case e of [] \<Rightarrow> [] | x # xs \<Rightarrow> if x = CHR ''/'' then xs else e)"

definition buildUrl :: "(int \<Rightarrow> string) \<Rightarrow> string \<Rightarrow> string \<Rightarrow> jsobj option \<Rightarrow> string option" where
  "buildUrl host base endpoint params =
     (let url = base @ ''/'' @ stripLeadingSlash endpoint
      in case params of
           None \<Rightarrow> Some url
         | Some ps \<Rightarrow>
             (case queryString host ps of None \<Rightarrow> None | Some q \<Rightarrow> Some (url @ ''?'' @ q)))"

definition carriesBody :: "string \<Rightarrow> jsval \<Rightarrow> bool" where
  "carriesBody method body =
     (truthy body \<and> (method = ''POST'' \<or> method = ''PUT'' \<or> method = ''PATCH''))"

text \<open>
  Lines 189 to 208: the URL, then the options. \<open>None\<close> is the \<^verbatim>\<open>TypeError\<close> of a
  parameter or a token that has no string, thrown before any call of \<^verbatim>\<open>fetch\<close>.
\<close>

definition buildRequest ::
  "string \<Rightarrow> string \<Rightarrow> jsobj option \<Rightarrow> jsval \<Rightarrow> client \<Rightarrow> world \<Rightarrow> http_request option" where
  "buildRequest endpoint method params body c w =
     (case buildUrl (numberText w) (baseUrl c) endpoint params of
        None \<Rightarrow> None
      | Some url \<Rightarrow>
          (case getHeaders (numberText w) c of
             None \<Rightarrow> None
           | Some headers \<Rightarrow>
               Some \<lparr>reqUrl = url, reqMethod = method, reqHeaders = headers,
                     reqBody = (if carriesBody method body then Some body else None)\<rparr>))"

text \<open>Lines 229 to 236 of \<^verbatim>\<open>request\<close>: what is done with the response finally held.\<close>

definition finish :: "response \<Rightarrow> error + jsval" where
  "finish r =
     (if ok r then (case bodyJson r of None \<Rightarrow> Inl JsonSyntaxError | Some v \<Rightarrow> Inr v)
      else Inl (RequestFailed (status r) (bodyText r)))"

definition request ::
  "string \<Rightarrow> string \<Rightarrow> jsobj option \<Rightarrow> jsval \<Rightarrow> client \<Rightarrow> world \<Rightarrow> (error + jsval) \<times> client \<times> world" where
  "request endpoint method params body c w =
     (case ensureAuthenticated c w of
        (False, c1, w1) \<Rightarrow> (Inl NotAuthenticated, c1, w1)
      | (True, c1, w1) \<Rightarrow>
          (case buildRequest endpoint method params body c1 w1 of
             None \<Rightarrow> (Inl TypeError, c1, w1)
           | Some options \<Rightarrow>
               (case fetch options w1 of
                  (Rejects, w2) \<Rightarrow> (Inl FetchRejected, c1, w2)
                | (Responds r, w2) \<Rightarrow>
                    if status r = 401 then
                      (case clearStoredToken c1 w2 of
                         (c2, w3) \<Rightarrow>
                           (case authenticate None None c2 w3 of
                              (Inl e, c3, w4) \<Rightarrow> (Inl e, c3, w4)
                            | (Inr refreshed, c3, w4) \<Rightarrow>
                                if refreshed then
                                  (case getHeaders (numberText w4) c3 of
                                     None \<Rightarrow> (Inl TypeError, c3, w4)
                                   | Some headers \<Rightarrow>
                                       (case fetch (options\<lparr>reqHeaders := headers\<rparr>) w4 of
                                          (Rejects, w5) \<Rightarrow> (Inl FetchRejected, c3, w5)
                                        | (Responds r2, w5) \<Rightarrow> (finish r2, c3, w5)))
                                else (Inl RefreshFailed, c3, w4)))
                    else (finish r, c1, w2))))"

text \<open>
  \<^verbatim>\<open>getV53aList(page = 1, pageSize = 10, filters = {})\<close>: an argument that is
  \<^verbatim>\<open>undefined\<close> takes its default.
\<close>

definition orDefault :: "jsval \<Rightarrow> jsval \<Rightarrow> jsval" where
  "orDefault d v = (if v = JUndefined then d else v)"

definition listParams :: "jsval \<Rightarrow> jsval \<Rightarrow> jsobj \<Rightarrow> jsobj" where
  "listParams page pageSize filters =
     spread filters
       (objSet ''page_size'' (orDefault (JNum 10) pageSize)
          (objSet ''page'' (orDefault (JNum 1) page) []))"

definition getV53aList ::
  "jsval \<Rightarrow> jsval \<Rightarrow> jsobj \<Rightarrow> client \<Rightarrow> world \<Rightarrow> (error + jsval) \<times> client \<times> world" where
  "getV53aList page pageSize filters c w =
     request ''api/v53a/'' ''GET'' (Some (listParams page pageSize filters)) JNull c w"

definition getV53aDetail :: "jsval \<Rightarrow> client \<Rightarrow> world \<Rightarrow> (error + jsval) \<times> client \<times> world" where
  "getV53aDetail recordId c w =
     (case toStr (numberText w) recordId of
        None \<Rightarrow> (Inl TypeError, c, w)
      | Some text \<Rightarrow> request (''api/v53a/'' @ text @ ''/'') ''GET'' None JNull c w)"

definition getLastElements :: "jsval \<Rightarrow> client \<Rightarrow> world \<Rightarrow> (error + jsval) \<times> client \<times> world" where
  "getLastElements did c w =
     (case toStr (numberText w) did of
        None \<Rightarrow> (Inl TypeError, c, w)
      | Some text \<Rightarrow> request (''api/v53a/'' @ text @ ''/last-elements/'') ''GET'' None JNull c w)"

definition logout :: "client \<Rightarrow> world \<Rightarrow> client \<times> world" where
  "logout c w = clearStoredToken c w"

section \<open>Sample hosts and states\<close>

text \<open>
  The examples below run on a host whose \<^verbatim>\<open>Date.parse\<close> and
  \<^verbatim>\<open>toISOString\<close> are given on two instants, one day and thirty years after the
  epoch, and whose text of a large number is given on \<open>10 ^ 21\<close>.
\<close>

definition sampleParse :: "string \<Rightarrow> int option" where
  "sampleParse = map_of
     [(''1970-01-02T00:00:00.000Z'', 86400000),
      (''2000-01-01T00:00:00.000Z'', 946684800000)]"

definition sampleISO :: "int \<Rightarrow> string" where
  "sampleISO t =
     (if t = 86400000 then ''1970-01-02T00:00:00.000Z''
      else if t = 946684800000 then ''2000-01-01T00:00:00.000Z''
      else [])"

definition sampleNumberText :: "int \<Rightarrow> string" where
  "sampleNumberText n = (if n = 1000000000000000000000 then ''1e+21'' else [])"

text \<open>A world under Node.js (no \<^verbatim>\<open>localStorage\<close>) and one in a browser.\<close>

abbreviation nodeWorld :: "int \<Rightarrow> (nat \<times> outcome) list \<Rightarrow> http_request list \<Rightarrow> world" where
  "nodeWorld now outs reqs \<equiv>
     \<lparr>clock = now, localStorage = None, dateParse = sampleParse, dateISO = sampleISO,
      numberText = sampleNumberText, pending = outs, sent = reqs\<rparr>"

abbreviation browserWorld ::
  "int \<Rightarrow> (string \<times> string) list \<Rightarrow> (nat \<times> outcome) list \<Rightarrow> http_request list \<Rightarrow> world" where
  "browserWorld now store outs reqs \<equiv>
     \<lparr>clock = now, localStorage = Some (map_of store), dateParse = sampleParse,
      dateISO = sampleISO, numberText = sampleNumberText, pending = outs, sent = reqs\<rparr>"

abbreviation site :: string where
  "site \<equiv> ''http://aiprediction.us''"

abbreviation anonymous :: "jsval \<Rightarrow> jsdate option \<Rightarrow> client" where
  "anonymous tok ex \<equiv>
     \<lparr>baseUrl = site, username = None, password = None, token = tok, tokenExpiry = ex\<rparr>"

abbreviation member :: "jsval \<Rightarrow> jsdate option \<Rightarrow> client" where
  "member tok ex \<equiv>
     \<lparr>baseUrl = site, username = Some ''your_username'', password = Some ''your_password'',
      token = tok, tokenExpiry = ex\<rparr>"

text \<open>Responses: a refusal of the credentials, a rejected token, a token granted with
  and without its expiry, a grant whose token and expiry are objects with a property
  \<open>toString\<close>, and a page of records.\<close>

abbreviation refusal :: response where
  "refusal \<equiv> \<lparr>status = 400, bodyText = ''Unable to log in'', bodyJson = None\<rparr>"

abbreviation unauthorized :: response where
  "unauthorized \<equiv> \<lparr>status = 401, bodyText = ''Invalid token'', bodyJson = None\<rparr>"

abbreviation granted :: response where
  "granted \<equiv>
     \<lparr>status = 200,
      bodyText = ''{\"token\":\"xyz\",\"expires_at\":\"2000-01-01T00:00:00.000Z\"}'',
      bodyJson = Some (JObj [(''token'', JStr ''xyz''),
                             (''expires_at'', JStr ''2000-01-01T00:00:00.000Z'')])\<rparr>"

abbreviation grantedBare :: response where
  "grantedBare \<equiv>
     \<lparr>status = 200, bodyText = ''{\"token\":\"abc\"}'',
      bodyJson = Some (JObj [(''token'', JStr ''abc'')])\<rparr>"

abbreviation grantedOdd :: response where
  "grantedOdd \<equiv>
     \<lparr>status = 200, bodyText = ''{\"token\":{\"toString\":1},\"expires_at\":{\"toString\":1}}'',
      bodyJson = Some (JObj [(''token'', JObj [(''toString'', JNum 1)]),
                             (''expires_at'', JObj [(''toString'', JNum 1)])])\<rparr>"

abbreviation recordsPage :: response where
  "recordsPage \<equiv>
     \<lparr>status = 200, bodyText = ''{\"count\":0,\"results\":[]}'',
      bodyJson = Some (JObj [(''count'', JNum 0), (''results'', JArr [])])\<rparr>"

text \<open>Stores holding a token that has expired and one that has not.\<close>

abbreviation expiredStore :: "(string \<times> string) list" where
  "expiredStore \<equiv> [(''api_token'', ''abc''), (''api_token_expiry'', ''1970-01-02T00:00:00.000Z'')]"

abbreviation freshStore :: "(string \<times> string) list" where
  "freshStore \<equiv> [(''api_token'', ''abc''), (''api_token_expiry'', ''2000-01-01T00:00:00.000Z'')]"

text \<open>The calls of \<^verbatim>\<open>fetch\<close> the examples expect: a listing and the log-in.\<close>

abbreviation listing :: "string \<Rightarrow> http_request" where
  "listing tok \<equiv>
     \<lparr>reqUrl = ''http://aiprediction.us/api/v53a/'', reqMethod = ''GET'',
      reqHeaders = [(''Authorization'', tok), (''Content-Type'', ''application/json'')],
      reqBody = None\<rparr>"

abbreviation login :: http_request where
  "login \<equiv>
     \<lparr>reqUrl = ''http://aiprediction.us/api-token-auth/'', reqMethod = ''POST'',
      reqHeaders = [(''Content-Type'', ''application/json'')],
      reqBody = Some (JObj [(''username'', JStr ''your_username''),
                            (''password'', JStr ''your_password'')])\<rparr>"

section \<open>The validity check\<close>

text \<open>
  C3. \<open>isTokenValid\<close> is true exactly when the token is present (truthy), an expiry is
  present and the expiry minus the current time is more than five minutes; an invalid
  date has no such difference. In particular an expiry at most five minutes ahead gives
  false. The check is a function of the client's fields and the clock alone and returns
  only the boolean: it reads no outcome of the network, records no call and returns no
  changed client or world.
\<close>

theorem isTokenValid_iff:
  "(isTokenValid c w \<longleftrightarrow>
      truthy (token c) \<and> (\<exists>t. tokenExpiry c = Some (Date t) \<and> t - clock w > 5 * 60 * 1000))
   \<and> (tokenExpiry c = Some (Date t) \<and> t - clock w \<le> 5 * 60 * 1000 \<longrightarrow> \<not> isTokenValid c w)"
  by (cases "tokenExpiry c"; simp add: isTokenValid_def bufferTime_def split: jsdate.splits)

theorem isTokenValid_iff_witness:
  "400000 - clock (nodeWorld 100000 [] []) \<le> (5 * 60 * 1000 :: int)
   \<and> \<not> isTokenValid (anonymous (JStr ''abc'') (Some (Date 400000))) (nodeWorld 100000 [] [])
   \<and> isTokenValid (anonymous (JStr ''abc'') (Some (Date 400001))) (nodeWorld 100000 [] [])"
  using isTokenValid_iff [of "anonymous (JStr ''abc'') (Some (Date 400000))" "nodeWorld 100000 [] []" 400000]
        isTokenValid_iff [of "anonymous (JStr ''abc'') (Some (Date 400001))" "nodeWorld 100000 [] []" 400001]
  by simp

section \<open>What the operations leave unchanged\<close>

lemma fetch_sent: "fetch rq w = (out, w') \<Longrightarrow> sent w' = sent w @ [rq]"
  by (auto simp add: fetch_def split: list.splits)

lemma fetch_pending:
  "fetch rq w = (out, w') \<Longrightarrow>
     (pending w = [] \<and> pending w' = [] \<and> out = Rejects) \<or> (\<exists>d. pending w = (d, out) # pending w')"
  by (auto simp add: fetch_def split: list.splits)

lemma fetch_Responds:
  "fetch rq w = (Responds r, w') \<Longrightarrow> \<exists>d. pending w = (d, Responds r) # pending w'"
  by (auto simp add: fetch_def split: list.splits)

lemma fetch_host: "fetch rq w = (out, w') \<Longrightarrow> numberText w' = numberText w"
  by (auto simp add: fetch_def split: list.splits)

lemma saveToken_frame:
  "saveToken c w = (e, w') \<Longrightarrow>
     sent w' = sent w \<and> pending w' = pending w \<and> clock w' = clock w
     \<and> numberText w' = numberText w"
  by (auto simp add: saveToken_def Let_def split: option.splits if_splits jsdate.splits)

lemma saveToken_error: "saveToken c w = (Some e, w') \<Longrightarrow> e = RangeError \<or> e = TypeError"
  by (auto simp add: saveToken_def Let_def split: option.splits if_splits jsdate.splits)

lemma acceptToken_frame:
  "acceptToken r c w = (res, c', w') \<Longrightarrow>
     sent w' = sent w \<and> pending w' = pending w \<and> numberText w' = numberText w
     \<and> baseUrl c' = baseUrl c \<and> username c' = username c \<and> password c' = password c"
  by (auto simp add: acceptToken_def Let_def split: option.splits prod.splits dest: saveToken_frame)

lemma acceptToken_result:
  "acceptToken r c w = (res, c', w') \<Longrightarrow>
     res = Inr True \<or> res = Inl JsonSyntaxError \<or> res = Inl TypeError \<or> res = Inl RangeError"
  by (auto simp add: acceptToken_def Let_def split: option.splits prod.splits dest: saveToken_error)

lemma authenticate_client:
  "authenticate None None c w = (res, c', w') \<Longrightarrow>
     baseUrl c' = baseUrl c \<and> username c' = username c \<and> password c' = password c"
  by (auto simp add: authenticate_def Let_def split: if_splits prod.splits outcome.splits
           dest: acceptToken_frame)

lemma authenticate_result:
  "authenticate u p c w = (res, c', w') \<Longrightarrow>
     res = Inr True \<or> res = Inl MissingCredentials \<or> res = Inl FetchRejected
     \<or> res = Inl JsonSyntaxError \<or> res = Inl TypeError \<or> res = Inl RangeError
     \<or> (\<exists>s t. res = Inl (AuthenticationFailed s t))"
  by (auto simp add: authenticate_def Let_def split: if_splits prod.splits outcome.splits
           dest: acceptToken_result)

lemma authRequest_cong:
  "baseUrl c' = baseUrl c \<Longrightarrow> username c' = username c \<Longrightarrow> password c' = password c \<Longrightarrow>
     authRequest c' = authRequest c"
  by (simp add: authRequest_def)

lemma authenticate_missing:
  "authenticate u p c w = (Inl MissingCredentials, c', w') \<Longrightarrow> w' = w"
  by (auto simp add: authenticate_def Let_def split: if_splits prod.splits outcome.splits
           dest: acceptToken_result)

lemma authenticate_sent:
  "authenticate u p c w = (res, c', w') \<Longrightarrow> res \<noteq> Inl MissingCredentials \<Longrightarrow>
     sent w' = sent w @ [authRequest c']"
  by (auto simp add: authenticate_def Let_def split: if_splits prod.splits outcome.splits
           dest!: acceptToken_frame fetch_sent) (simp_all add: authRequest_def)

lemma authenticate_consumes:
  "authenticate u p c w = (res, c', w') \<Longrightarrow>
     pending w' = pending w \<or> (\<exists>x. pending w = x # pending w')"
  by (auto simp add: authenticate_def Let_def split: if_splits prod.splits outcome.splits
           dest!: acceptToken_frame fetch_pending)

lemma authenticate_Inr_unfold:
  "authenticate u p c w = (Inr b, c', w') \<Longrightarrow>
     \<exists>c2 r w1. fetch (authRequest c2) w = (Responds r, w1) \<and> ok r
               \<and> acceptToken r c2 w1 = (Inr b, c', w')"
  by (auto simp add: authenticate_def Let_def split: if_splits prod.splits outcome.splits)

lemma authenticate_success:
  assumes "authenticate u p c w = (Inr b, c', w')"
  shows "b \<and> (\<exists>d r. pending w = (d, Responds r) # pending w' \<and> ok r)"
proof -
  from assms obtain c2 r w1 where
    f: "fetch (authRequest c2) w = (Responds r, w1)" and o: "ok r"
    and t: "acceptToken r c2 w1 = (Inr b, c', w')"
    using authenticate_Inr_unfold by blast
  from f obtain d where p: "pending w = (d, Responds r) # pending w1"
    using fetch_Responds by blast
  from t have "pending w' = pending w1" by (simp add: acceptToken_frame)
  moreover from t have "b" using acceptToken_result by fastforce
  ultimately show ?thesis using p o by auto
qed

lemma authenticate_host:
  "authenticate u p c w = (res, c', w') \<Longrightarrow> numberText w' = numberText w"
  by (auto simp add: authenticate_def Let_def split: if_splits prod.splits outcome.splits
           dest!: acceptToken_frame fetch_host)

lemma clearStoredToken_frame:
  "clearStoredToken c w = (c', w') \<Longrightarrow>
     sent w' = sent w \<and> pending w' = pending w \<and> clock w' = clock w
     \<and> numberText w' = numberText w
     \<and> baseUrl c' = baseUrl c \<and> username c' = username c \<and> password c' = password c
     \<and> token c' = JNull \<and> tokenExpiry c' = None"
  by (auto simp add: clearStoredToken_def split: option.splits)

lemma authenticate_stored_sent:
  assumes "authenticate None None c w = (res, c', w')"
  shows "sent w' = sent w \<or> sent w' = sent w @ [authRequest c]"
proof (cases "res = Inl MissingCredentials")
  case True
  with assms show ?thesis using authenticate_missing by blast
next
  case False
  with assms have "sent w' = sent w @ [authRequest c']" by (rule authenticate_sent)
  moreover from assms have "authRequest c' = authRequest c"
    by (intro authRequest_cong) (simp_all add: authenticate_client)
  ultimately show ?thesis by simp
qed

lemma ensureAuthenticated_client:
  "ensureAuthenticated c w = (b, c', w') \<Longrightarrow>
     baseUrl c' = baseUrl c \<and> username c' = username c \<and> password c' = password c"
  by (auto simp add: ensureAuthenticated_def split: if_splits prod.splits sum.splits
           dest: authenticate_client)

lemma ensureAuthenticated_host:
  "ensureAuthenticated c w = (b, c', w') \<Longrightarrow> numberText w' = numberText w"
  by (auto simp add: ensureAuthenticated_def split: if_splits prod.splits sum.splits
           dest: authenticate_host)

lemma ensureAuthenticated_sent:
  "ensureAuthenticated c w = (b, c', w') \<Longrightarrow>
     sent w' = sent w \<or> sent w' = sent w @ [authRequest c]"
  by (auto simp add: ensureAuthenticated_def split: if_splits prod.splits sum.splits
           dest: authenticate_stored_sent)

lemma ensureAuthenticated_consumes:
  "ensureAuthenticated c w = (b, c', w') \<Longrightarrow>
     pending w' = pending w \<or> (\<exists>x. pending w = x # pending w')"
  by (auto simp add: ensureAuthenticated_def split: if_splits prod.splits sum.splits
           dest: authenticate_consumes)

lemma finish_Inr: "finish r = Inr v \<Longrightarrow> ok r \<and> bodyJson r = Some v"
  by (auto simp add: finish_def split: if_splits option.splits)

lemma finish_failed: "\<not> ok r \<Longrightarrow> finish r = Inl (RequestFailed (status r) (bodyText r))"
  by (simp add: finish_def)

text \<open>
  The paths through \<^verbatim>\<open>request\<close>. The branch that throws
  \<^verbatim>\<open>'Authentication failed after token refresh'\<close> is not among them:
  \<open>authenticate\<close> resolves to \<^verbatim>\<open>true\<close> or throws.
\<close>

lemma request_cases:
  assumes "request e m ps b c w = (res, c', w')"
  obtains
    (unauthenticated) "ensureAuthenticated c w = (False, c', w')" "res = Inl NotAuthenticated"
  | (unbuilt)
      "ensureAuthenticated c w = (True, c', w')"
      "buildRequest e m ps b c' w' = None" "res = Inl TypeError"
  | (rejected) w1 rq where
      "ensureAuthenticated c w = (True, c', w1)"
      "buildRequest e m ps b c' w1 = Some rq"
      "fetch rq w1 = (Rejects, w')" "res = Inl FetchRejected"
  | (answered) w1 rq r where
      "ensureAuthenticated c w = (True, c', w1)"
      "buildRequest e m ps b c' w1 = Some rq"
      "fetch rq w1 = (Responds r, w')" "status r \<noteq> 401" "res = finish r"
  | (refresh_failed) c1 w1 rq r w2 c2 w3 err where
      "ensureAuthenticated c w = (True, c1, w1)"
      "buildRequest e m ps b c1 w1 = Some rq"
      "fetch rq w1 = (Responds r, w2)" "status r = 401"
      "clearStoredToken c1 w2 = (c2, w3)"
      "authenticate None None c2 w3 = (Inl err, c', w')" "res = Inl err"
  | (retry_unbuilt) c1 w1 rq r w2 c2 w3 where
      "ensureAuthenticated c w = (True, c1, w1)"
      "buildRequest e m ps b c1 w1 = Some rq"
      "fetch rq w1 = (Responds r, w2)" "status r = 401"
      "clearStoredToken c1 w2 = (c2, w3)"
      "authenticate None None c2 w3 = (Inr True, c', w')"
      "getHeaders (numberText w') c' = None" "res = Inl TypeError"
  | (retry_rejected) c1 w1 rq r w2 c2 w3 w4 hs where
      "ensureAuthenticated c w = (True, c1, w1)"
      "buildRequest e m ps b c1 w1 = Some rq"
      "fetch rq w1 = (Responds r, w2)" "status r = 401"
      "clearStoredToken c1 w2 = (c2, w3)"
      "authenticate None None c2 w3 = (Inr True, c', w4)"
      "getHeaders (numberText w4) c' = Some hs"
      "fetch (rq\<lparr>reqHeaders := hs\<rparr>) w4 = (Rejects, w')"
      "res = Inl FetchRejected"
  | (retry_answered) c1 w1 rq r w2 c2 w3 w4 hs r2 where
      "ensureAuthenticated c w = (True, c1, w1)"
      "buildRequest e m ps b c1 w1 = Some rq"
      "fetch rq w1 = (Responds r, w2)" "status r = 401"
      "clearStoredToken c1 w2 = (c2, w3)"
      "authenticate None None c2 w3 = (Inr True, c', w4)"
      "getHeaders (numberText w4) c' = Some hs"
      "fetch (rq\<lparr>reqHeaders := hs\<rparr>) w4 = (Responds r2, w')"
      "res = finish r2"
proof -
  obtain ok1 c1 w1 where ea: "ensureAuthenticated c w = (ok1, c1, w1)"
    by (cases "ensureAuthenticated c w") auto
  show ?thesis
  proof (cases ok1)
    case False
    with ea assms show ?thesis by (intro unauthenticated) (auto simp add: request_def)
  next
    case True
    show ?thesis
    proof (cases "buildRequest e m ps b c1 w1")
      case None
      with ea True assms show ?thesis by (intro unbuilt) (auto simp add: request_def)
    next
      case (Some rq)
      obtain out w2 where f: "fetch rq w1 = (out, w2)"
        by (cases "fetch rq w1") auto
      show ?thesis
      proof (cases out)
        case Rejects
        with ea True Some f assms show ?thesis
          by (intro rejected [of w1 rq]) (auto simp add: request_def)
      next
        case (Responds r)
        show ?thesis
        proof (cases "status r = 401")
          case False
          with ea True Some f Responds assms show ?thesis
            by (intro answered [of w1 rq r]) (auto simp add: request_def)
        next
          case u: True
          obtain c2 w3 where cl: "clearStoredToken c1 w2 = (c2, w3)"
            by (cases "clearStoredToken c1 w2") auto
          obtain ares c3 w4 where au: "authenticate None None c2 w3 = (ares, c3, w4)"
            by (cases "authenticate None None c2 w3") auto
          show ?thesis
          proof (cases ares)
            case (Inl err)
            with ea True Some f Responds u cl au assms show ?thesis
              by (intro refresh_failed [of c1 w1 rq r w2 c2 w3 err]) (auto simp add: request_def)
          next
            case (Inr refreshed)
            with au have refreshed using authenticate_success by blast
            show ?thesis
            proof (cases "getHeaders (numberText w4) c3")
              case None
              with ea True Some f Responds u cl au Inr \<open>refreshed\<close> assms show ?thesis
                by (intro retry_unbuilt [of c1 w1 rq r w2 c2 w3]) (auto simp add: request_def)
            next
              case hs: (Some hs)
              obtain out2 w5 where f2: "fetch (rq\<lparr>reqHeaders := hs\<rparr>) w4 = (out2, w5)"
                by (cases "fetch (rq\<lparr>reqHeaders := hs\<rparr>) w4") auto
              show ?thesis
              proof (cases out2)
                case Rejects
                with ea True Some f Responds u cl au Inr \<open>refreshed\<close> hs f2 assms show ?thesis
                  by (intro retry_rejected [of c1 w1 rq r w2 c2 w3 w4 hs])
                     (auto simp add: request_def)
              next
                case r2: (Responds r2)
                with ea True Some f Responds u cl au Inr \<open>refreshed\<close> hs f2 assms show ?thesis
                  by (intro retry_answered [of c1 w1 rq r w2 c2 w3 w4 hs r2])
                     (auto simp add: request_def)
              qed
            qed
          qed
        qed
      qed
    qed
  qed
qed

lemma buildRequest_parts:
  assumes "buildRequest e m ps b c w = Some rq"
  shows "buildUrl (numberText w) (baseUrl c) e ps = Some (reqUrl rq)"
    and "getHeaders (numberText w) c = Some (reqHeaders rq)"
    and "reqMethod rq = m"
    and "reqBody rq = (if carriesBody m b then Some b else None)"
  using assms by (auto simp add: buildRequest_def split: option.splits)

lemma request_Inr_body:
  assumes "request e m ps b c w = (Inr v, c', w')"
  shows "(\<exists>cs d r. pending w = cs @ (d, Responds r) # pending w' \<and> ok r \<and> bodyJson r = Some v)
       \<and> sent w' \<noteq> []
       \<and> buildUrl (numberText w) (baseUrl c) e ps = Some (reqUrl (last (sent w')))"
  using assms
proof (cases rule: request_cases)
  case (answered w1 rq r)
  from answered(1) have p0: "pending w1 = pending w \<or> (\<exists>x. pending w = x # pending w1)"
    by (rule ensureAuthenticated_consumes)
  from answered(3) obtain d where p1: "pending w1 = (d, Responds r) # pending w'"
    using fetch_Responds by blast
  from answered(5) have o: "ok r \<and> bodyJson r = Some v" by (metis finish_Inr)
  from p0 p1 have "\<exists>cs. pending w = cs @ (d, Responds r) # pending w'"
    by (metis append_Cons append_Nil)
  moreover from answered(3) have "sent w' = sent w1 @ [rq]"
    by (rule fetch_sent)
  moreover from answered(1) have "baseUrl c' = baseUrl c" "numberText w1 = numberText w"
    by (simp_all add: ensureAuthenticated_client ensureAuthenticated_host)
  ultimately show ?thesis using o buildRequest_parts(1) [OF answered(2)] by auto
next
  case (retry_answered c1 w1 rq r w2 c2 w3 w4 hs r2)
  from retry_answered(1) have p0: "pending w1 = pending w \<or> (\<exists>x. pending w = x # pending w1)"
    by (rule ensureAuthenticated_consumes)
  from retry_answered(3) obtain d where p1: "pending w1 = (d, Responds r) # pending w2"
    using fetch_Responds by blast
  from retry_answered(5) have p2: "pending w3 = pending w2" by (simp add: clearStoredToken_frame)
  from retry_answered(6) obtain x where p3: "pending w3 = x # pending w4"
    using authenticate_success by blast
  from retry_answered(8) obtain d2 where p4: "pending w4 = (d2, Responds r2) # pending w'"
    using fetch_Responds by blast
  from retry_answered(9) have o: "ok r2 \<and> bodyJson r2 = Some v" by (metis finish_Inr)
  from p0 p1 p2 p3 p4 have "\<exists>cs. pending w = cs @ (d2, Responds r2) # pending w'"
    by (metis append_Cons append_Nil)
  moreover from retry_answered(8) have "sent w' = sent w4 @ [rq\<lparr>reqHeaders := hs\<rparr>]"
    by (rule fetch_sent)
  moreover from retry_answered(1) have "baseUrl c1 = baseUrl c" "numberText w1 = numberText w"
    by (simp_all add: ensureAuthenticated_client ensureAuthenticated_host)
  ultimately show ?thesis using o buildRequest_parts(1) [OF retry_answered(2)] by auto
qed simp_all

lemma triple_collapse: "t = (fst t, fst (snd t), snd (snd t))"
  by simp

lemma loadStoredToken_client:
  "baseUrl (fst (loadStoredToken c w)) = baseUrl c
   \<and> username (fst (loadStoredToken c w)) = username c
   \<and> password (fst (loadStoredToken c w)) = password c"
  by (simp add: loadStoredToken_def clearStoredToken_def Let_def split: option.splits)


lemma authenticate_answered:
  assumes "authenticate u p c w = (res, c', w')" and "res \<noteq> Inl MissingCredentials"
      and "pending w = (d, Responds r) # rest" and "ok r"
  shows "\<exists>c2. acceptToken r c2 (w\<lparr>clock := clock w + int d, pending := rest,
                                   sent := sent w @ [authRequest c2]\<rparr>) = (res, c', w')"
  using assms
  by (auto simp add: authenticate_def fetch_def Let_def split: if_splits)

section \<open>Object literals\<close>

lemma keys_replaceValue: "map fst (replaceValue k v ps) = map fst ps"
  by (induction ps) auto

lemma map_of_replaceValue_at:
  "map_of (replaceValue k v ps) x =
     (if x = k \<and> k \<in> fst ` set ps then Some v else map_of ps x)"
  by (induction ps) (auto simp add: rev_image_eqI)

lemma map_of_replaceValue:
  "k \<in> set (map fst ps) \<Longrightarrow> map_of (replaceValue k v ps) = (map_of ps)(k \<mapsto> v)"
  by (auto simp add: fun_eq_iff map_of_replaceValue_at)

lemma set_insertIndex: "set (insertIndex i k v ps) = insert (k, v) (set ps)"
  by (induction ps) (auto split: option.splits)

lemma distinct_insertIndex:
  "k \<notin> set (map fst ps) \<Longrightarrow> distinct (map fst ps) \<Longrightarrow> distinct (map fst (insertIndex i k v ps))"
  by (induction ps) (auto simp add: set_insertIndex split: option.splits)

lemma map_of_insertIndex:
  "k \<notin> set (map fst ps) \<Longrightarrow> map_of (insertIndex i k v ps) = (map_of ps)(k \<mapsto> v)"
  by (induction ps) (auto simp add: fun_eq_iff split: option.splits)

lemma map_of_append_new:
  "k \<notin> set (map fst ps) \<Longrightarrow> map_of (ps @ [(k, v)]) = (map_of ps)(k \<mapsto> v)"
  by (induction ps) (auto simp add: fun_eq_iff)

lemma map_of_objSet: "map_of (objSet k v ps) = (map_of ps)(k \<mapsto> v)"
proof (cases "k \<in> set (map fst ps)")
  case True
  then show ?thesis by (simp add: objSet.simps map_of_replaceValue del: set_map)
next
  case False
  show ?thesis
  proof (cases "arrayIndex k")
    case None
    with False have "objSet k v ps = ps @ [(k, v)]" by (simp add: objSet.simps del: set_map)
    with False show ?thesis by (metis map_of_append_new)
  next
    case (Some i)
    with False have "objSet k v ps = insertIndex i k v ps" by (simp add: objSet.simps del: set_map)
    with False show ?thesis by (metis map_of_insertIndex)
  qed
qed

lemma distinct_objSet:
  "distinct (map fst ps) \<Longrightarrow> distinct (map fst (objSet k v ps))"
  by (auto simp add: objSet.simps keys_replaceValue distinct_insertIndex split: option.splits)

lemma map_of_spread: "map_of (spread fs t) = map_of t ++ map_of (rev fs)"
  by (induction fs arbitrary: t) (auto simp add: map_of_objSet fun_eq_iff map_add_def split: option.splits)

lemma distinct_spread: "distinct (map fst t) \<Longrightarrow> distinct (map fst (spread fs t))"
  by (induction fs arbitrary: t) (auto simp add: distinct_objSet)

section \<open>The encoding of a query\<close>




















section \<open>Missing credentials\<close>

text \<open>
  C4. When no username is available (none stored, none supplied) or no password is
  available, \<open>authenticate\<close> fails with \<open>MissingCredentials\<close>; the world it returns is
  the world it was given, so no call of \<^verbatim>\<open>fetch\<close> was made, and the cached token
  and expiry are as before. A value that is \<^verbatim>\<open>null\<close> or the empty string counts as
  absent, as in \<^verbatim>\<open>if (username)\<close> and \<^verbatim>\<open>!this.username\<close>.
\<close>

theorem authenticate_missing_credentials:
  assumes "(\<not> truthyStr u \<and> \<not> truthyStr (username c)) \<or> (\<not> truthyStr p \<and> \<not> truthyStr (password c))"
  shows "\<exists>c'. authenticate u p c w = (Inl MissingCredentials, c', w)
              \<and> token c' = token c \<and> tokenExpiry c' = tokenExpiry c"
  using assms by (auto simp add: authenticate_def Let_def)

theorem authenticate_missing_credentials_witness:
  "\<not> truthyStr None \<and> \<not> truthyStr (username (anonymous (JStr ''abc'') (Some (Date 400000))))
   \<and> fst (authenticate None None (anonymous (JStr ''abc'') (Some (Date 400000)))
            (nodeWorld 100000 [(30, Responds granted)] [])) = Inl MissingCredentials
   \<and> snd (snd (authenticate None None (anonymous (JStr ''abc'') (Some (Date 400000)))
            (nodeWorld 100000 [(30, Responds granted)] []))) = nodeWorld 100000 [(30, Responds granted)] []
   \<and> token (fst (snd (authenticate None None (anonymous (JStr ''abc'') (Some (Date 400000)))
            (nodeWorld 100000 [(30, Responds granted)] [])))) = JStr ''abc''
   \<and> tokenExpiry (fst (snd (authenticate None None (anonymous (JStr ''abc'') (Some (Date 400000)))
            (nodeWorld 100000 [(30, Responds granted)] [])))) = Some (Date 400000)"
  using authenticate_missing_credentials [of None "anonymous (JStr ''abc'') (Some (Date 400000))"
          None "nodeWorld 100000 [(30, Responds granted)] []"]
  by auto

section \<open>Ensuring a token\<close>

text \<open>
  C5. When \<open>isTokenValid\<close> holds, \<open>ensureAuthenticated\<close> returns true and leaves client
  and world as they are: no call of \<^verbatim>\<open>fetch\<close>. Otherwise it calls \<open>authenticate\<close>
  with no overrides, that is with the stored credentials; if that call throws it returns
  false, in the state the failed call left, and it never throws itself.
\<close>

theorem ensureAuthenticated_paths:
  "(isTokenValid c w \<longrightarrow> ensureAuthenticated c w = (True, c, w))
   \<and> (\<not> isTokenValid c w \<longrightarrow>
        (\<forall>e c1 w1. authenticate None None c w = (Inl e, c1, w1) \<longrightarrow>
                    ensureAuthenticated c w = (False, c1, w1))
      \<and> (\<forall>b c1 w1. authenticate None None c w = (Inr b, c1, w1) \<longrightarrow>
                    ensureAuthenticated c w = (b, c1, w1)))"
  by (simp add: ensureAuthenticated_def)

theorem ensureAuthenticated_paths_witness:
  "isTokenValid (anonymous (JStr ''abc'') (Some (Date 400001))) (nodeWorld 100000 [(30, Rejects)] [])
   \<and> ensureAuthenticated (anonymous (JStr ''abc'') (Some (Date 400001))) (nodeWorld 100000 [(30, Rejects)] [])
       = (True, anonymous (JStr ''abc'') (Some (Date 400001)), nodeWorld 100000 [(30, Rejects)] [])
   \<and> \<not> isTokenValid (member (JStr ''abc'') (Some (Date 400000))) (nodeWorld 100000 [(30, Responds refusal)] [])
   \<and> authenticate None None (member (JStr ''abc'') (Some (Date 400000))) (nodeWorld 100000 [(30, Responds refusal)] [])
       = (Inl (AuthenticationFailed 400 ''Unable to log in''),
          member (JStr ''abc'') (Some (Date 400000)),
          nodeWorld 100030 [] [authRequest (member (JStr ''abc'') (Some (Date 400000)))])
   \<and> ensureAuthenticated (member (JStr ''abc'') (Some (Date 400000))) (nodeWorld 100000 [(30, Responds refusal)] [])
       = (False, member (JStr ''abc'') (Some (Date 400000)),
          nodeWorld 100030 [] [authRequest (member (JStr ''abc'') (Some (Date 400000)))])"
proof -
  have v: "isTokenValid (anonymous (JStr ''abc'') (Some (Date 400001))) (nodeWorld 100000 [(30, Rejects)] [])"
    by (simp add: isTokenValid_def bufferTime_def)
  have i: "\<not> isTokenValid (member (JStr ''abc'') (Some (Date 400000))) (nodeWorld 100000 [(30, Responds refusal)] [])"
    by (simp add: isTokenValid_def bufferTime_def)
  have a: "authenticate None None (member (JStr ''abc'') (Some (Date 400000))) (nodeWorld 100000 [(30, Responds refusal)] [])
       = (Inl (AuthenticationFailed 400 ''Unable to log in''),
          member (JStr ''abc'') (Some (Date 400000)),
          nodeWorld 100030 [] [authRequest (member (JStr ''abc'') (Some (Date 400000)))])"
    by (simp add: authenticate_def fetch_def ok_def Let_def)
  show ?thesis
    using v i a
      ensureAuthenticated_paths [of "anonymous (JStr ''abc'') (Some (Date 400001))" "nodeWorld 100000 [(30, Rejects)] []"]
      ensureAuthenticated_paths [of "member (JStr ''abc'') (Some (Date 400000))" "nodeWorld 100000 [(30, Responds refusal)] []"]
    by simp
qed

section \<open>Logging out\<close>

text \<open>
  C8. \<open>logout\<close> sets the cached token and expiry to \<^verbatim>\<open>null\<close>, removes the entries
  \<open>api_token\<close> and \<open>api_token_expiry\<close> from the store where there is one and leaves its
  other entries, changes neither base URL nor credentials, makes no call of
  \<^verbatim>\<open>fetch\<close> and consumes no outcome; \<open>isTokenValid\<close> is false afterwards.
\<close>

theorem logout_clears:
  assumes "logout c w = (c', w')"
  shows "token c' = JNull \<and> tokenExpiry c' = None
       \<and> baseUrl c' = baseUrl c \<and> username c' = username c \<and> password c' = password c
       \<and> sent w' = sent w \<and> pending w' = pending w \<and> clock w' = clock w
       \<and> localStorage w' =
           map_option (\<lambda>m. m(''api_token'' := None, ''api_token_expiry'' := None)) (localStorage w)
       \<and> (\<forall>m. localStorage w' = Some m \<longrightarrow> m ''api_token'' = None \<and> m ''api_token_expiry'' = None)
       \<and> \<not> isTokenValid c' w'"
  using assms
  by (auto simp add: logout_def clearStoredToken_def isTokenValid_def split: option.splits)

theorem logout_clears_witness:
  "token (fst (logout (member (JStr ''abc'') (Some (Date 946684800000)))
           (browserWorld 100000 [(''api_token'', ''abc''), (''api_token_expiry'', ''2000-01-01T00:00:00.000Z''), (''theme'', ''dark'')] [(30, Rejects)] []))) = JNull
   \<and> the (localStorage (snd (logout (member (JStr ''abc'') (Some (Date 946684800000)))
           (browserWorld 100000 [(''api_token'', ''abc''), (''api_token_expiry'', ''2000-01-01T00:00:00.000Z''), (''theme'', ''dark'')] [(30, Rejects)] [])))) ''api_token'' = None
   \<and> the (localStorage (snd (logout (member (JStr ''abc'') (Some (Date 946684800000)))
           (browserWorld 100000 [(''api_token'', ''abc''), (''api_token_expiry'', ''2000-01-01T00:00:00.000Z''), (''theme'', ''dark'')] [(30, Rejects)] [])))) ''api_token_expiry'' = None
   \<and> the (localStorage (snd (logout (member (JStr ''abc'') (Some (Date 946684800000)))
           (browserWorld 100000 [(''api_token'', ''abc''), (''api_token_expiry'', ''2000-01-01T00:00:00.000Z''), (''theme'', ''dark'')] [(30, Rejects)] [])))) ''theme'' = Some ''dark''
   \<and> pending (snd (logout (member (JStr ''abc'') (Some (Date 946684800000)))
           (browserWorld 100000 [(''api_token'', ''abc''), (''api_token_expiry'', ''2000-01-01T00:00:00.000Z''), (''theme'', ''dark'')] [(30, Rejects)] []))) = [(30, Rejects)]"
  using logout_clears [OF prod.collapse [symmetric], of "member (JStr ''abc'') (Some (Date 946684800000))"
     "browserWorld 100000 [(''api_token'', ''abc''), (''api_token_expiry'', ''2000-01-01T00:00:00.000Z''), (''theme'', ''dark'')] [(30, Rejects)] []"]
  by simp

section \<open>Construction\<close>

text \<open>
  C9, as stated, fails: with a store that holds \<open>api_token\<close> but no
  \<open>api_token_expiry\<close> the guard \<^verbatim>\<open>if (storedToken && storedExpiry)\<close> skips the
  whole block, so the client holds no valid token and the entry stays in the store.
\<close>

theorem constructor_lone_entry_counterexample:
  "\<not> isTokenValid (fst (constructor ''http://aiprediction.us/'' None None
                           (browserWorld 100000 [(''api_token'', ''abc'')] [] [])))
                     (snd (constructor ''http://aiprediction.us/'' None None
                           (browserWorld 100000 [(''api_token'', ''abc'')] [] [])))
   \<and> the (localStorage (snd (constructor ''http://aiprediction.us/'' None None
                           (browserWorld 100000 [(''api_token'', ''abc'')] [] []))))
        ''api_token'' = Some ''abc''"
  by (simp add: constructor_def loadStoredToken_def isTokenValid_def)

text \<open>
  C9, amended. After construction either \<open>isTokenValid\<close> holds for the loaded token,
  or the token and expiry in memory are \<^verbatim>\<open>null\<close>. When both entries are stored and
  non-empty, the stored expiry decides: if it is a date more than five minutes ahead,
  the client holds the stored token with that expiry and the world is untouched; if it is
  no date or a date at most five minutes ahead, the token is not retained and exactly
  the two entries are removed from the store. When either entry is missing or empty, or
  there is no store, nothing is loaded and the world is left as it was, so that a lone
  entry stays. In every case base URL and credentials are the ones given.
\<close>

theorem constructor_token_state:
  assumes "constructor b u p w = (c, w')"
  shows "baseUrl c = stripTrailingSlash b \<and> username c = u \<and> password c = p
       \<and> (isTokenValid c w' \<or> (token c = JNull \<and> tokenExpiry c = None))
       \<and> (\<forall>m tk ex. localStorage w = Some m \<and> m ''api_token'' = Some tk
                     \<and> m ''api_token_expiry'' = Some ex \<and> tk \<noteq> [] \<and> ex \<noteq> [] \<longrightarrow>
              (\<forall>t. dateParse w ex = Some t \<and> t - clock w > 5 * 60 * 1000 \<longrightarrow>
                    token c = JStr tk \<and> tokenExpiry c = Some (Date t)
                    \<and> isTokenValid c w' \<and> w' = w)
            \<and> (dateParse w ex = None
                  \<or> (\<exists>t. dateParse w ex = Some t \<and> t - clock w \<le> 5 * 60 * 1000) \<longrightarrow>
                    token c = JNull \<and> tokenExpiry c = None \<and> \<not> isTokenValid c w'
                    \<and> w' = w\<lparr>localStorage :=
                               Some (m(''api_token'' := None, ''api_token_expiry'' := None))\<rparr>))
       \<and> (\<forall>m. localStorage w = Some m
                \<and> \<not> (truthyStr (m ''api_token'') \<and> truthyStr (m ''api_token_expiry'')) \<longrightarrow>
              token c = JNull \<and> tokenExpiry c = None \<and> w' = w)
       \<and> (localStorage w = None \<longrightarrow> token c = JNull \<and> tokenExpiry c = None \<and> w' = w)"
proof -
  from assms have frame: "baseUrl c = stripTrailingSlash b \<and> username c = u \<and> password c = p"
    using loadStoredToken_client
      [of "\<lparr>baseUrl = stripTrailingSlash b, username = u, password = p,
            token = JNull, tokenExpiry = None\<rparr>" w]
    by (simp add: constructor_def)
  from assms have state: "isTokenValid c w' \<or> (token c = JNull \<and> tokenExpiry c = None)"
    by (auto simp add: constructor_def loadStoredToken_def clearStoredToken_def isTokenValid_def
          Let_def split: option.splits if_splits jsdate.splits)
  from assms have both: "\<forall>m tk ex. localStorage w = Some m \<and> m ''api_token'' = Some tk
                     \<and> m ''api_token_expiry'' = Some ex \<and> tk \<noteq> [] \<and> ex \<noteq> [] \<longrightarrow>
              (\<forall>t. dateParse w ex = Some t \<and> t - clock w > 5 * 60 * 1000 \<longrightarrow>
                    token c = JStr tk \<and> tokenExpiry c = Some (Date t)
                    \<and> isTokenValid c w' \<and> w' = w)
            \<and> (dateParse w ex = None
                  \<or> (\<exists>t. dateParse w ex = Some t \<and> t - clock w \<le> 5 * 60 * 1000) \<longrightarrow>
                    token c = JNull \<and> tokenExpiry c = None \<and> \<not> isTokenValid c w'
                    \<and> w' = w\<lparr>localStorage :=
                               Some (m(''api_token'' := None, ''api_token_expiry'' := None))\<rparr>)"
    by (auto simp add: constructor_def loadStoredToken_def clearStoredToken_def isTokenValid_def
          bufferTime_def Let_def)
  from assms have part: "\<forall>m. localStorage w = Some m
                \<and> \<not> (truthyStr (m ''api_token'') \<and> truthyStr (m ''api_token_expiry'')) \<longrightarrow>
              token c = JNull \<and> tokenExpiry c = None \<and> w' = w"
    by (auto simp add: constructor_def loadStoredToken_def split: option.splits if_splits)
  from assms have none: "localStorage w = None \<longrightarrow> token c = JNull \<and> tokenExpiry c = None \<and> w' = w"
    by (auto simp add: constructor_def loadStoredToken_def)
  from frame state both part none show ?thesis by blast
qed

theorem constructor_token_state_witness:
  "token (fst (constructor ''http://aiprediction.us/'' None None
                 (browserWorld 100000 freshStore [] []))) = JStr ''abc''
   \<and> tokenExpiry (fst (constructor ''http://aiprediction.us/'' None None
                 (browserWorld 100000 freshStore [] []))) = Some (Date 946684800000)
   \<and> snd (constructor ''http://aiprediction.us/'' None None (browserWorld 100000 freshStore [] []))
     = browserWorld 100000 freshStore [] []
   \<and> isTokenValid (fst (constructor ''http://aiprediction.us/'' None None
                          (browserWorld 100000 freshStore [] [])))
                  (browserWorld 100000 freshStore [] [])
   \<and> token (fst (constructor ''http://aiprediction.us/'' None None
                 (browserWorld 86400000 expiredStore [] []))) = JNull
   \<and> tokenExpiry (fst (constructor ''http://aiprediction.us/'' None None
                 (browserWorld 86400000 expiredStore [] []))) = None
   \<and> the (localStorage (snd (constructor ''http://aiprediction.us/'' None None
                                 (browserWorld 86400000 expiredStore [] []))))
        ''api_token'' = None
   \<and> the (localStorage (snd (constructor ''http://aiprediction.us/'' None None
                                 (browserWorld 86400000 expiredStore [] []))))
        ''api_token_expiry'' = None"
proof -
  have p1: "sampleParse ''2000-01-01T00:00:00.000Z'' = Some 946684800000"
    and p2: "sampleParse ''1970-01-02T00:00:00.000Z'' = Some 86400000"
    by (simp_all add: sampleParse_def)
  note fresh = constructor_token_state [where b = "''http://aiprediction.us/''" and u = None
      and p = None and w = "browserWorld 100000 freshStore [] []", OF prod.collapse [symmetric],
      THEN conjunct2, THEN conjunct2, THEN conjunct2, THEN conjunct2, THEN conjunct1,
      THEN spec [where x = "map_of freshStore"], THEN spec [where x = "''abc''"],
      THEN spec [where x = "''2000-01-01T00:00:00.000Z''"]]
  note expired = constructor_token_state [where b = "''http://aiprediction.us/''" and u = None
      and p = None and w = "browserWorld 86400000 expiredStore [] []", OF prod.collapse [symmetric],
      THEN conjunct2, THEN conjunct2, THEN conjunct2, THEN conjunct2, THEN conjunct1,
      THEN spec [where x = "map_of expiredStore"], THEN spec [where x = "''abc''"],
      THEN spec [where x = "''1970-01-02T00:00:00.000Z''"]]
  from fresh p1 have f:
    "token (fst (constructor ''http://aiprediction.us/'' None None
                 (browserWorld 100000 freshStore [] []))) = JStr ''abc''
   \<and> tokenExpiry (fst (constructor ''http://aiprediction.us/'' None None
                 (browserWorld 100000 freshStore [] []))) = Some (Date 946684800000)
   \<and> snd (constructor ''http://aiprediction.us/'' None None (browserWorld 100000 freshStore [] []))
     = browserWorld 100000 freshStore [] []
   \<and> isTokenValid (fst (constructor ''http://aiprediction.us/'' None None
                          (browserWorld 100000 freshStore [] [])))
                  (browserWorld 100000 freshStore [] [])"
    by auto
  from expired p2 have e:
    "token (fst (constructor ''http://aiprediction.us/'' None None
                 (browserWorld 86400000 expiredStore [] []))) = JNull
   \<and> tokenExpiry (fst (constructor ''http://aiprediction.us/'' None None
                 (browserWorld 86400000 expiredStore [] []))) = None
   \<and> the (localStorage (snd (constructor ''http://aiprediction.us/'' None None
                                 (browserWorld 86400000 expiredStore [] []))))
        ''api_token'' = None
   \<and> the (localStorage (snd (constructor ''http://aiprediction.us/'' None None
                                 (browserWorld 86400000 expiredStore [] []))))
        ''api_token_expiry'' = None"
    by simp
  from f e show ?thesis by simp
qed

section \<open>Requests\<close>

text \<open>
  C6. \<open>request\<close> begins with \<open>ensureAuthenticated\<close>; when that returns false it fails with
  \<open>NotAuthenticated\<close> in the state \<open>ensureAuthenticated\<close> left, so that at most the
  log-in was sent and the request itself was not. A result that is not an error is the
  decoded JSON body, as it is, of the last response consumed, a response with
  \<^verbatim>\<open>response.ok\<close> to the last call sent, which went to the URL of the request; every
  other run ends in an error. \<open>getV53aList\<close> is a call of \<open>request\<close> and nothing
  more; \<open>getV53aDetail\<close> and \<open>getLastElements\<close> write the identifier into the
  endpoint and then are such a call.
\<close>

theorem request_all_or_nothing:
  assumes "request e m ps b c w = (res, c', w')"
  shows "(fst (ensureAuthenticated c w) = False \<longrightarrow>
            res = Inl NotAuthenticated \<and> (c', w') = snd (ensureAuthenticated c w)
            \<and> (sent w' = sent w \<or> sent w' = sent w @ [authRequest c]))
       \<and> (\<forall>v. res = Inr v \<longrightarrow>
            (\<exists>cs d r. pending w = cs @ (d, Responds r) # pending w' \<and> ok r \<and> bodyJson r = Some v)
            \<and> sent w' \<noteq> []
            \<and> buildUrl (numberText w) (baseUrl c) e ps = Some (reqUrl (last (sent w'))))"
proof (intro conjI impI allI)
  assume f: "fst (ensureAuthenticated c w) = False"
  then obtain c1 w1 where ea: "ensureAuthenticated c w = (False, c1, w1)"
    by (cases "ensureAuthenticated c w") auto
  with assms show "res = Inl NotAuthenticated" by (simp add: request_def)
  from ea assms show "(c', w') = snd (ensureAuthenticated c w)" by (simp add: request_def)
  from ea assms have "w' = w1" by (simp add: request_def)
  with ea show "sent w' = sent w \<or> sent w' = sent w @ [authRequest c]"
    using ensureAuthenticated_sent by blast
next
  fix v assume "res = Inr v"
  with assms have r: "request e m ps b c w = (Inr v, c', w')" by simp
  from r show "\<exists>cs d r. pending w = cs @ (d, Responds r) # pending w' \<and> ok r \<and> bodyJson r = Some v"
    using request_Inr_body by blast
  from r show "sent w' \<noteq> []" using request_Inr_body by blast
  from r show "buildUrl (numberText w) (baseUrl c) e ps = Some (reqUrl (last (sent w')))"
    using request_Inr_body by blast
qed

theorem request_all_or_nothing_witness:
  "fst (ensureAuthenticated (anonymous JNull None) (nodeWorld 100000 [(30, Responds recordsPage)] [])) = False
   \<and> request ''/api/v53a/'' ''GET'' None JNull (anonymous JNull None) (nodeWorld 100000 [(30, Responds recordsPage)] [])
       = (Inl NotAuthenticated, anonymous JNull None, nodeWorld 100000 [(30, Responds recordsPage)] [])
   \<and> fst (request ''/api/v53a/'' ''GET'' None JNull (anonymous (JStr ''abc'') (Some (Date 946684800000)))
             (nodeWorld 100000 [(30, Responds recordsPage)] []))
       = Inr (JObj [(''count'', JNum 0), (''results'', JArr [])])
   \<and> reqUrl (last (sent (snd (snd (request ''/api/v53a/'' ''GET'' None JNull
             (anonymous (JStr ''abc'') (Some (Date 946684800000)))
             (nodeWorld 100000 [(30, Responds recordsPage)] []))))))
       = ''http://aiprediction.us/api/v53a/''"
proof -
  have n: "ensureAuthenticated (anonymous JNull None) (nodeWorld 100000 [(30, Responds recordsPage)] [])
           = (False, anonymous JNull None, nodeWorld 100000 [(30, Responds recordsPage)] [])"
    by (simp add: ensureAuthenticated_def isTokenValid_def authenticate_def Let_def)
  have y: "fst (request ''/api/v53a/'' ''GET'' None JNull (anonymous (JStr ''abc'') (Some (Date 946684800000)))
             (nodeWorld 100000 [(30, Responds recordsPage)] []))
       = Inr (JObj [(''count'', JNum 0), (''results'', JArr [])])"
    by (simp add: request_def ensureAuthenticated_def isTokenValid_def bufferTime_def fetch_def
          buildRequest_def buildUrl_def getHeaders_def finish_def ok_def Let_def)
  have u: "buildUrl sampleNumberText site ''/api/v53a/'' None = Some ''http://aiprediction.us/api/v53a/''"
    by (simp add: buildUrl_def stripLeadingSlash_def)
  show ?thesis
    using n y u
      request_all_or_nothing [where e = "''/api/v53a/''" and m = "''GET''" and ps = None and b = JNull
        and c = "anonymous JNull None" and w = "nodeWorld 100000 [(30, Responds recordsPage)] []",
        OF triple_collapse]
      request_all_or_nothing [where e = "''/api/v53a/''" and m = "''GET''" and ps = None and b = JNull
        and c = "anonymous (JStr ''abc'') (Some (Date 946684800000))"
        and w = "nodeWorld 100000 [(30, Responds recordsPage)] []", OF triple_collapse]
    by (auto simp add: prod_eq_iff)
qed

text \<open>
  C1, as stated, fails where the re-authentication fails: the request is then not sent
  again, and the error is the one \<open>authenticate\<close> threw (here \<open>AuthenticationFailed\<close>),
  not \<open>RequestFailed\<close>.
\<close>

theorem request_refresh_refused_counterexample:
  "request ''api/v53a/'' ''GET'' None JNull (member (JStr ''abc'') (Some (Date 946684800000)))
     (nodeWorld 100000 [(30, Responds unauthorized), (30, Responds refusal), (30, Responds recordsPage)] [])
   = (Inl (AuthenticationFailed 400 ''Unable to log in''), member JNull None,
      nodeWorld 100060 [(30, Responds recordsPage)] [listing ''Token abc'', login])"
  by (simp add: request_def ensureAuthenticated_def isTokenValid_def bufferTime_def fetch_def
        buildRequest_def buildUrl_def stripLeadingSlash_def getHeaders_def carriesBody_def
        clearStoredToken_def authenticate_def authRequest_def ok_def Let_def)

text \<open>
  C1, amended. When the response to the request is a 401, the cached token and expiry
  are discarded, in memory and in the store, and \<open>authenticate\<close> is called once, with
  the stored credentials. If it succeeds, the same request (URL, method, body) is sent
  once more with the headers of the new token, three calls in all; a response to it that
  is not 2xx, a second 401 included, ends in \<open>RequestFailed\<close> with that status, and no
  further call is made. If the re-authentication fails, the request is not sent again
  and \<open>request\<close> fails with the error of \<open>authenticate\<close>, which is never
  \<open>RequestFailed\<close>. The headers of a token that is a string are always built; a token
  that cannot be converted to a string (an object with a property \<open>toString\<close>) makes
  \<^verbatim>\<open>getHeaders\<close> throw, and the call ends in that \<open>TypeError\<close> without a retry.
\<close>

theorem request_unauthorized_once:
  assumes "ensureAuthenticated c w = (True, c1, w1)"
      and "buildRequest e m ps b c1 w1 = Some rq"
      and "pending w1 = (d, Responds r) # rest" and "status r = 401"
      and "request e m ps b c w = (res, c', w')"
  shows "\<exists>c2 w2 ares w3.
           clearStoredToken c1 (snd (fetch rq w1)) = (c2, w2)
         \<and> token c2 = JNull \<and> tokenExpiry c2 = None
         \<and> (\<forall>store. localStorage w2 = Some store \<longrightarrow>
               store ''api_token'' = None \<and> store ''api_token_expiry'' = None)
         \<and> authenticate None None c2 w2 = (ares, c', w3)
         \<and> (\<forall>err. ares = Inl err \<longrightarrow>
               res = Inl err \<and> w' = w3 \<and> (\<forall>s t. err \<noteq> RequestFailed s t)
               \<and> (sent w' = sent w1 @ [rq] \<or> sent w' = sent w1 @ [rq, authRequest c1]))
         \<and> (\<forall>refreshed. ares = Inr refreshed \<longrightarrow>
               (getHeaders (numberText w3) c' = None \<longrightarrow>
                  res = Inl TypeError \<and> w' = w3 \<and> sent w' = sent w1 @ [rq, authRequest c1])
             \<and> (\<forall>hs. getHeaders (numberText w3) c' = Some hs \<longrightarrow>
                  sent w' = sent w1 @ [rq, authRequest c1, rq\<lparr>reqHeaders := hs\<rparr>]
                  \<and> (\<forall>d2 r2 rest2. pending w3 = (d2, Responds r2) # rest2 \<longrightarrow>
                        pending w' = rest2 \<and> res = finish r2
                        \<and> (\<not> ok r2 \<longrightarrow> res = Inl (RequestFailed (status r2) (bodyText r2))))
                  \<and> (pending w3 = [] \<or> (\<exists>d2 rest2. pending w3 = (d2, Rejects) # rest2) \<longrightarrow>
                        res = Inl FetchRejected))
             \<and> (\<forall>tk. token c' = JStr tk \<longrightarrow>
                  getHeaders (numberText w3) c' =
                    Some [(''Authorization'', ''Token '' @ tk),
                          (''Content-Type'', ''application/json'')]))"
proof -
  from assms(3) obtain wf where f: "fetch rq w1 = (Responds r, wf)"
    by (simp add: fetch_def)
  then have wf: "snd (fetch rq w1) = wf" by simp
  obtain c2 w2 where cl: "clearStoredToken c1 wf = (c2, w2)"
    by (cases "clearStoredToken c1 wf") auto
  obtain ares c3 w3 where au: "authenticate None None c2 w2 = (ares, c3, w3)"
    by (cases "authenticate None None c2 w2") auto
  from f have s1: "sent wf = sent w1 @ [rq]" by (rule fetch_sent)
  from cl have fr: "sent w2 = sent wf" "token c2 = JNull" "tokenExpiry c2 = None"
      "baseUrl c2 = baseUrl c1" "username c2 = username c1" "password c2 = password c1"
    by (simp_all add: clearStoredToken_frame)
  from cl have st: "\<forall>store. localStorage w2 = Some store \<longrightarrow>
               store ''api_token'' = None \<and> store ''api_token_expiry'' = None"
    by (auto simp add: clearStoredToken_def split: option.splits)
  from fr have ar: "authRequest c2 = authRequest c1" by (intro authRequest_cong)
  from au have s3: "sent w3 = sent w2 \<or> sent w3 = sent w2 @ [authRequest c2]"
    by (rule authenticate_stored_sent)
  have str: "\<forall>tk. token c3 = JStr tk \<longrightarrow>
                  getHeaders (numberText w3) c3 =
                    Some [(''Authorization'', ''Token '' @ tk),
                          (''Content-Type'', ''application/json'')]"
    by (simp add: getHeaders_def)
  show ?thesis
  proof (cases ares)
    case (Inl err)
    with assms f cl au have res: "res = Inl err" "c' = c3" "w' = w3"
      by (simp_all add: request_def)
    from au Inl have "\<forall>s t. err \<noteq> RequestFailed s t"
      using authenticate_result [of None None c2 w2 ares c3 w3] by auto
    with res Inl au cl fr st s1 s3 ar wf show ?thesis by auto
  next
    case (Inr refreshed)
    with au have t: "refreshed" using authenticate_success by blast
    from au have "authRequest c3 = authRequest c2"
      by (intro authRequest_cong) (simp_all add: authenticate_client)
    with au Inr have s3': "sent w3 = sent w2 @ [authRequest c2]"
      using authenticate_sent [of None None c2 w2 ares c3 w3] by simp
    show ?thesis
    proof (cases "getHeaders (numberText w3) c3")
      case None
      with assms f cl au Inr t have res: "res = Inl TypeError" "c' = c3" "w' = w3"
        by (simp_all add: request_def)
      with None s3' fr s1 ar have "sent w' = sent w1 @ [rq, authRequest c1]" by simp
      with res None cl fr st au Inr wf str show ?thesis by auto
    next
      case (Some hs)
      let ?rq2 = "rq\<lparr>reqHeaders := hs\<rparr>"
      from assms f cl au Inr t Some have res:
        "(res, c', w') = (case fetch ?rq2 w3 of
            (Rejects, w5) \<Rightarrow> (Inl FetchRejected, c3, w5)
          | (Responds r2, w5) \<Rightarrow> (finish r2, c3, w5))"
        by (simp add: request_def)
      then have c: "c' = c3" by (auto split: prod.splits outcome.splits)
      from res have sw: "sent w' = sent w3 @ [?rq2]"
        by (auto split: prod.splits outcome.splits dest: fetch_sent)
      from res have a: "\<forall>d2 r2 rest2. pending w3 = (d2, Responds r2) # rest2 \<longrightarrow>
                       pending w' = rest2 \<and> res = finish r2"
        by (auto simp add: fetch_def split: prod.splits outcome.splits list.splits)
      from res have b: "pending w3 = [] \<or> (\<exists>d2 rest2. pending w3 = (d2, Rejects) # rest2) \<longrightarrow>
                       res = Inl FetchRejected"
        by (auto simp add: fetch_def split: prod.splits outcome.splits list.splits)
      from a have a': "\<forall>d2 r2 rest2. pending w3 = (d2, Responds r2) # rest2 \<longrightarrow>
                       pending w' = rest2 \<and> res = finish r2
                       \<and> (\<not> ok r2 \<longrightarrow> res = Inl (RequestFailed (status r2) (bodyText r2)))"
        by (auto simp add: finish_failed)
      from sw s3' fr s1 ar have sent': "sent w' = sent w1 @ [rq, authRequest c1, ?rq2]"
        by simp
      from cl fr st au c Inr Some sent' a' b wf str show ?thesis by auto
    qed
  qed
qed

theorem request_unauthorized_once_witness:
  "fst (request ''api/v53a/'' ''GET'' None JNull (member (JStr ''abc'') (Some (Date 946684800000)))
         (nodeWorld 100000 [(30, Responds unauthorized), (30, Responds granted),
                            (30, Responds unauthorized), (30, Responds recordsPage)] []))
     = Inl (RequestFailed 401 ''Invalid token'')
   \<and> sent (snd (snd (request ''api/v53a/'' ''GET'' None JNull (member (JStr ''abc'') (Some (Date 946684800000)))
         (nodeWorld 100000 [(30, Responds unauthorized), (30, Responds granted),
                            (30, Responds unauthorized), (30, Responds recordsPage)] []))))
     = [listing ''Token abc'', login, listing ''Token xyz'']
   \<and> pending (snd (snd (request ''api/v53a/'' ''GET'' None JNull (member (JStr ''abc'') (Some (Date 946684800000)))
         (nodeWorld 100000 [(30, Responds unauthorized), (30, Responds granted),
                            (30, Responds unauthorized), (30, Responds recordsPage)] []))))
     = [(30, Responds recordsPage)]
   \<and> fst (request ''api/v53a/'' ''GET'' None JNull (member (JStr ''abc'') (Some (Date 946684800000)))
         (nodeWorld 100000 [(30, Responds unauthorized), (30, Responds grantedOdd),
                            (30, Responds recordsPage)] []))
     = Inl TypeError
   \<and> sent (snd (snd (request ''api/v53a/'' ''GET'' None JNull (member (JStr ''abc'') (Some (Date 946684800000)))
         (nodeWorld 100000 [(30, Responds unauthorized), (30, Responds grantedOdd),
                            (30, Responds recordsPage)] []))))
     = [listing ''Token abc'', login]"
proof -
  let ?c = "member (JStr ''abc'') (Some (Date 946684800000))"
  let ?w = "nodeWorld 100000 [(30, Responds unauthorized), (30, Responds granted),
                            (30, Responds unauthorized), (30, Responds recordsPage)] []"
  let ?v = "nodeWorld 100000 [(30, Responds unauthorized), (30, Responds grantedOdd),
                            (30, Responds recordsPage)] []"
  have ea: "ensureAuthenticated ?c ?w = (True, ?c, ?w)"
    by (simp add: ensureAuthenticated_def isTokenValid_def bufferTime_def)
  have ea': "ensureAuthenticated ?c ?v = (True, ?c, ?v)"
    by (simp add: ensureAuthenticated_def isTokenValid_def bufferTime_def)
  have p: "pending ?w = (30, Responds unauthorized) #
             [(30, Responds granted), (30, Responds unauthorized), (30, Responds recordsPage)]"
    by simp
  have p': "pending ?v = (30, Responds unauthorized) #
             [(30, Responds grantedOdd), (30, Responds recordsPage)]"
    by simp
  have s: "status unauthorized = 401" by simp
  have rq: "buildRequest ''api/v53a/'' ''GET'' None JNull ?c ?w = Some (listing ''Token abc'')"
    by (simp add: buildRequest_def buildUrl_def stripLeadingSlash_def getHeaders_def carriesBody_def)
  have rq': "buildRequest ''api/v53a/'' ''GET'' None JNull ?c ?v = Some (listing ''Token abc'')"
    by (simp add: buildRequest_def buildUrl_def stripLeadingSlash_def getHeaders_def carriesBody_def)
  have cl: "clearStoredToken ?c (snd (fetch (listing ''Token abc'') ?w))
            = (member JNull None,
               nodeWorld 100030 [(30, Responds granted), (30, Responds unauthorized),
                                 (30, Responds recordsPage)] [listing ''Token abc''])"
    by (simp add: clearStoredToken_def fetch_def)
  have cl': "clearStoredToken ?c (snd (fetch (listing ''Token abc'') ?v))
            = (member JNull None,
               nodeWorld 100030 [(30, Responds grantedOdd), (30, Responds recordsPage)]
                 [listing ''Token abc''])"
    by (simp add: clearStoredToken_def fetch_def)
  have au: "authenticate None None (member JNull None)
              (nodeWorld 100030 [(30, Responds granted), (30, Responds unauthorized),
                                 (30, Responds recordsPage)] [listing ''Token abc''])
            = (Inr True, member (JStr ''xyz'') (Some (Date 946684800000)),
               nodeWorld 100060 [(30, Responds unauthorized), (30, Responds recordsPage)]
                 [listing ''Token abc'', login])"
    by (simp add: authenticate_def authRequest_def fetch_def ok_def acceptToken_def saveToken_def
          expiryOf_def sampleParse_def Let_def)
  have au': "authenticate None None (member JNull None)
              (nodeWorld 100030 [(30, Responds grantedOdd), (30, Responds recordsPage)]
                 [listing ''Token abc''])
            = (Inr True, member (JObj [(''toString'', JNum 1)]) (Some (Date 86500060)),
               nodeWorld 100060 [(30, Responds recordsPage)] [listing ''Token abc'', login])"
    by (simp add: authenticate_def authRequest_def fetch_def ok_def acceptToken_def saveToken_def
          expiryOf_def defaultLifetime_def Let_def)
  have hd: "getHeaders sampleNumberText (member (JStr ''xyz'') (Some (Date 946684800000)))
            = Some [(''Authorization'', ''Token xyz''), (''Content-Type'', ''application/json'')]"
    by (simp add: getHeaders_def)
  have hd': "getHeaders sampleNumberText (member (JObj [(''toString'', JNum 1)]) (Some (Date 86500060)))
            = None"
    by (simp add: getHeaders_def)
  have ar: "authRequest ?c = login" by (simp add: authRequest_def)
  have nk: "\<not> ok unauthorized" by (simp add: ok_def)
  note t = request_unauthorized_once [where e = "''api/v53a/''" and m = "''GET''" and ps = None
      and b = JNull, OF ea rq p s triple_collapse]
  note t' = request_unauthorized_once [where e = "''api/v53a/''" and m = "''GET''" and ps = None
      and b = JNull, OF ea' rq' p' s triple_collapse]
  from t cl au hd ar nk have first:
    "fst (request ''api/v53a/'' ''GET'' None JNull ?c ?w) = Inl (RequestFailed 401 ''Invalid token'')
     \<and> sent (snd (snd (request ''api/v53a/'' ''GET'' None JNull ?c ?w)))
         = [listing ''Token abc'', login, listing ''Token xyz'']
     \<and> pending (snd (snd (request ''api/v53a/'' ''GET'' None JNull ?c ?w)))
         = [(30, Responds recordsPage)]"
    by auto
  from t' cl' au' hd' ar have second:
    "fst (request ''api/v53a/'' ''GET'' None JNull ?c ?v) = Inl TypeError
     \<and> sent (snd (snd (request ''api/v53a/'' ''GET'' None JNull ?c ?v)))
         = [listing ''Token abc'', login]"
    by auto
  from first second show ?thesis by simp
qed



section \<open>The query of a listing\<close>

text \<open>
  C10. A key of \<open>filters\<close>, in particular \<open>page\<close> or \<open>page_size\<close>, has in the
  parameters \<open>getV53aList\<close> hands to \<open>request\<close> the value \<open>filters\<close> gives it, whatever
  the arguments \<open>page\<close> and \<open>pageSize\<close> are, and every key occurs once in them. An
  object has each key once, which is the hypothesis on \<open>filters\<close>.
\<close>

theorem listParams_filters_win:
  assumes "distinct (map fst filters)" and "map_of filters k = Some v"
  shows "map_of (listParams page pageSize filters) k = Some v
       \<and> distinct (map fst (listParams page pageSize filters))
       \<and> getV53aList page pageSize filters c w =
           request ''api/v53a/'' ''GET'' (Some (listParams page pageSize filters)) JNull c w"
proof -
  from assms have "map_of (rev filters) k = Some v"
    by (simp add: rev_map [symmetric])
  then have "map_of (listParams page pageSize filters) k = Some v"
    by (simp add: listParams_def map_of_spread map_add_def)
  moreover have "distinct (map fst (listParams page pageSize filters))"
    by (simp add: listParams_def distinct_spread distinct_objSet)
  ultimately show ?thesis by (simp add: getV53aList_def)
qed

theorem listParams_filters_win_witness:
  "distinct (map fst [(''did'', JNum 250520), (''page'', JNum 7)])
   \<and> map_of [(''did'', JNum 250520), (''page'', JNum 7)] ''page'' = Some (JNum 7)
   \<and> map_of (listParams (JNum 1) (JNum 10) [(''did'', JNum 250520), (''page'', JNum 7)]) ''page'' = Some (JNum 7)
   \<and> listParams (JNum 1) (JNum 10) [(''did'', JNum 250520), (''page'', JNum 7)]
       = [(''page'', JNum 7), (''page_size'', JNum 10), (''did'', JNum 250520)]
   \<and> queryString sampleNumberText
        (listParams (JNum 1) (JNum 10) [(''did'', JNum 250520), (''page'', JNum 7)])
       = Some ''page=7&page_size=10&did=250520''"
proof -
  have d: "distinct (map fst [(''did'', JNum 250520), (''page'', JNum 7)])" by simp
  have m: "map_of [(''did'', JNum 250520), (''page'', JNum 7)] ''page'' = Some (JNum 7)" by simp
  have l: "listParams (JNum 1) (JNum 10) [(''did'', JNum 250520), (''page'', JNum 7)]
       = [(''page'', JNum 7), (''page_size'', JNum 10), (''did'', JNum 250520)]"
    by (simp add: listParams_def orDefault_def objSet.simps arrayIndex.simps)
  have q: "queryString sampleNumberText
             [(''page'', JNum 7), (''page_size'', JNum 10), (''did'', JNum 250520)]
       = Some ''page=7&page_size=10&did=250520''"
    by (simp add: queryString_def numToString_def natToString.simps)
  show ?thesis
    using d m l q listParams_filters_win [OF d m, of "JNum 1" "JNum 10"]
    by simp
qed

section \<open>The expiry of a granted token\<close>

text \<open>
  C2 says that a response without a readable \<open>expires_at\<close> gives the expiry "now plus
  24 hours", as the comment at line 123 of the source does. The code does not: the
  default is set in a \<^verbatim>\<open>catch\<close>, and \<^verbatim>\<open>new Date(data.expires_at)\<close> throws only
  for an object or an array that has no string conversion. For a missing
  \<open>expires_at\<close> and for a string that is no date it returns an invalid date: that is
  the expiry held, \<open>isTokenValid\<close> is false, no expiry is written to the store, and
  where there is a store and a token, \<open>authenticate\<close> fails, with the \<open>RangeError\<close>
  of \<^verbatim>\<open>toISOString()\<close> or the \<open>TypeError\<close> of a token without a string, although the
  server granted the token.
\<close>

theorem authenticate_expiry_not_defaulted:
  assumes "authenticate u p c w = (res, c', w')" and "res \<noteq> Inl MissingCredentials"
      and "pending w = (d, Responds r) # rest" and "ok r"
      and "bodyJson r = Some (JObj props)"
  shows "token c' = objGet props ''token''
       \<and> (newDate (numberText w) (dateParse w) (objGet props ''expires_at'') = Some InvalidDate \<longrightarrow>
            tokenExpiry c' = Some InvalidDate \<and> \<not> isTokenValid c' w'
            \<and> (\<forall>store. localStorage w = Some store \<longrightarrow>
                  (\<exists>store'. localStorage w' = Some store'
                     \<and> store' ''api_token_expiry'' = store ''api_token_expiry''))
            \<and> (res = Inr True \<longleftrightarrow>
                  localStorage w = None \<or> \<not> truthy (objGet props ''token''))
            \<and> (res = Inl RangeError \<longleftrightarrow>
                  localStorage w \<noteq> None \<and> truthy (objGet props ''token'')
                  \<and> toStr (numberText w) (objGet props ''token'') \<noteq> None)
            \<and> (res = Inl TypeError \<longleftrightarrow>
                  localStorage w \<noteq> None \<and> truthy (objGet props ''token'')
                  \<and> toStr (numberText w) (objGet props ''token'') = None))
       \<and> (newDate (numberText w) (dateParse w) (objGet props ''expires_at'') = None \<longrightarrow>
            tokenExpiry c' = Some (Date (clock w + int d + 24 * 60 * 60 * 1000)))
       \<and> (\<forall>x. newDate (numberText w) (dateParse w) (objGet props ''expires_at'') = Some x \<longrightarrow>
            tokenExpiry c' = Some x)
       \<and> (map_of props ''expires_at'' = None \<longrightarrow> objGet props ''expires_at'' = JUndefined)
       \<and> newDate host parse JUndefined = Some InvalidDate
       \<and> (parse str = None \<longrightarrow> newDate host parse (JStr str) = Some InvalidDate)
       \<and> (newDate host parse v = None \<longrightarrow>
            toStr host v = None \<and> ((\<exists>kvs. v = JObj kvs) \<or> (\<exists>vs. v = JArr vs)))"
proof -
  let ?w1 = "\<lambda>c2. w\<lparr>clock := clock w + int d, pending := rest,
                      sent := sent w @ [authRequest c2]\<rparr>"
  let ?ex = "objGet props ''expires_at''"
  let ?tk = "objGet props ''token''"
  from assms(1-4) obtain c2 where a: "acceptToken r c2 (?w1 c2) = (res, c', w')"
    using authenticate_answered by blast
  obtain e w2 where sv:
    "saveToken (c2\<lparr>token := ?tk, tokenExpiry := Some (expiryOf ?ex (?w1 c2))\<rparr>) (?w1 c2) = (e, w2)"
    by (cases "saveToken (c2\<lparr>token := ?tk, tokenExpiry := Some (expiryOf ?ex (?w1 c2))\<rparr>) (?w1 c2)")
       auto
  from a assms(5) sv have c': "c' = c2\<lparr>token := ?tk, tokenExpiry := Some (expiryOf ?ex (?w1 c2))\<rparr>"
    and w': "w' = w2" and res: "res = (case e of None \<Rightarrow> Inr True | Some x \<Rightarrow> Inl x)"
    by (auto simp add: acceptToken_def Let_def split: option.splits)
  from c' have tok: "token c' = ?tk" by simp
  have invalid: "newDate (numberText w) (dateParse w) ?ex = Some InvalidDate \<longrightarrow>
            tokenExpiry c' = Some InvalidDate \<and> \<not> isTokenValid c' w'
            \<and> (\<forall>store. localStorage w = Some store \<longrightarrow>
                  (\<exists>store'. localStorage w' = Some store'
                     \<and> store' ''api_token_expiry'' = store ''api_token_expiry''))
            \<and> (res = Inr True \<longleftrightarrow> localStorage w = None \<or> \<not> truthy ?tk)
            \<and> (res = Inl RangeError \<longleftrightarrow>
                  localStorage w \<noteq> None \<and> truthy ?tk \<and> toStr (numberText w) ?tk \<noteq> None)
            \<and> (res = Inl TypeError \<longleftrightarrow>
                  localStorage w \<noteq> None \<and> truthy ?tk \<and> toStr (numberText w) ?tk = None)"
  proof
    assume n: "newDate (numberText w) (dateParse w) ?ex = Some InvalidDate"
    then have ex: "expiryOf ?ex (?w1 c2) = InvalidDate" by (simp add: expiryOf_def)
    with c' have t: "tokenExpiry c' = Some InvalidDate" by simp
    then have v: "\<not> isTokenValid c' w'" by (simp add: isTokenValid_def)
    from sv ex w' res have rest:
      "(\<forall>store. localStorage w = Some store \<longrightarrow>
                  (\<exists>store'. localStorage w' = Some store'
                     \<and> store' ''api_token_expiry'' = store ''api_token_expiry''))
            \<and> (res = Inr True \<longleftrightarrow> localStorage w = None \<or> \<not> truthy ?tk)
            \<and> (res = Inl RangeError \<longleftrightarrow>
                  localStorage w \<noteq> None \<and> truthy ?tk \<and> toStr (numberText w) ?tk \<noteq> None)
            \<and> (res = Inl TypeError \<longleftrightarrow>
                  localStorage w \<noteq> None \<and> truthy ?tk \<and> toStr (numberText w) ?tk = None)"
      by (cases "localStorage w"; cases "truthy ?tk"; cases "toStr (numberText w) ?tk")
         (auto simp add: saveToken_def Let_def)
    from t v rest show "tokenExpiry c' = Some InvalidDate \<and> \<not> isTokenValid c' w'
            \<and> (\<forall>store. localStorage w = Some store \<longrightarrow>
                  (\<exists>store'. localStorage w' = Some store'
                     \<and> store' ''api_token_expiry'' = store ''api_token_expiry''))
            \<and> (res = Inr True \<longleftrightarrow> localStorage w = None \<or> \<not> truthy ?tk)
            \<and> (res = Inl RangeError \<longleftrightarrow>
                  localStorage w \<noteq> None \<and> truthy ?tk \<and> toStr (numberText w) ?tk \<noteq> None)
            \<and> (res = Inl TypeError \<longleftrightarrow>
                  localStorage w \<noteq> None \<and> truthy ?tk \<and> toStr (numberText w) ?tk = None)"
      by blast
  qed
  from c' have thrown: "newDate (numberText w) (dateParse w) ?ex = None \<longrightarrow>
            tokenExpiry c' = Some (Date (clock w + int d + 24 * 60 * 60 * 1000))"
    by (simp add: expiryOf_def defaultLifetime_def)
  from c' have given: "\<forall>x. newDate (numberText w) (dateParse w) ?ex = Some x \<longrightarrow>
            tokenExpiry c' = Some x"
    by (simp add: expiryOf_def)
  have missing: "map_of props ''expires_at'' = None \<longrightarrow> ?ex = JUndefined" by simp
  have undef: "newDate host parse JUndefined = Some InvalidDate" by simp
  have unread: "parse str = None \<longrightarrow> newDate host parse (JStr str) = Some InvalidDate" by simp
  have throws: "newDate host parse v = None \<longrightarrow>
            toStr host v = None \<and> ((\<exists>kvs. v = JObj kvs) \<or> (\<exists>vs. v = JArr vs))"
    by (cases v) simp_all
  from tok invalid thrown given missing undef unread throws show ?thesis by blast
qed

theorem authenticate_expiry_not_defaulted_witness:
  "newDate sampleNumberText sampleParse (objGet [(''token'', JStr ''abc'')] ''expires_at'')
     = Some InvalidDate
   \<and> authenticate None None (member JNull None) (browserWorld 100000 [] [(30, Responds grantedBare)] [])
       = (Inl RangeError, member (JStr ''abc'') (Some InvalidDate),
          browserWorld 100030 [(''api_token'', ''abc'')] [] [login])
   \<and> authenticate None None (member JNull None) (nodeWorld 100000 [(30, Responds grantedBare)] [])
       = (Inr True, member (JStr ''abc'') (Some InvalidDate), nodeWorld 100030 [] [login])
   \<and> tokenExpiry (fst (snd (authenticate None None (member JNull None)
         (nodeWorld 100000 [(30, Responds grantedBare)] [])))) \<noteq> Some (Date (100030 + 24 * 60 * 60 * 1000))
   \<and> \<not> isTokenValid (fst (snd (authenticate None None (member JNull None)
                         (nodeWorld 100000 [(30, Responds grantedBare)] []))))
                     (snd (snd (authenticate None None (member JNull None)
                         (nodeWorld 100000 [(30, Responds grantedBare)] []))))
   \<and> authenticate None None (member JNull None) (nodeWorld 100000 [(30, Responds grantedOdd)] [])
       = (Inr True, member (JObj [(''toString'', JNum 1)]) (Some (Date 86500030)),
          nodeWorld 100030 [] [login])"
proof -
  have b: "authenticate None None (member JNull None) (browserWorld 100000 [] [(30, Responds grantedBare)] [])
       = (Inl RangeError, member (JStr ''abc'') (Some InvalidDate),
          browserWorld 100030 [(''api_token'', ''abc'')] [] [login])"
    by (simp add: authenticate_def authRequest_def fetch_def ok_def acceptToken_def saveToken_def
          expiryOf_def Let_def)
  have n: "authenticate None None (member JNull None) (nodeWorld 100000 [(30, Responds grantedBare)] [])
       = (Inr True, member (JStr ''abc'') (Some InvalidDate), nodeWorld 100030 [] [login])"
    by (simp add: authenticate_def authRequest_def fetch_def ok_def acceptToken_def saveToken_def
          expiryOf_def Let_def)
  have o: "authenticate None None (member JNull None) (nodeWorld 100000 [(30, Responds grantedOdd)] [])
       = (Inr True, member (JObj [(''toString'', JNum 1)]) (Some (Date 86500030)),
          nodeWorld 100030 [] [login])"
    by (simp add: authenticate_def authRequest_def fetch_def ok_def acceptToken_def saveToken_def
          expiryOf_def defaultLifetime_def Let_def)
  have i: "newDate sampleNumberText sampleParse (objGet [(''token'', JStr ''abc'')] ''expires_at'')
           = Some InvalidDate"
    by simp
  have k: "ok grantedBare" by (simp add: ok_def)
  note t = authenticate_expiry_not_defaulted [where u = None and p = None and c = "member JNull None"
      and w = "nodeWorld 100000 [(30, Responds grantedBare)] []" and d = 30 and r = grantedBare
      and rest = "[]" and props = "[(''token'', JStr ''abc'')]", OF triple_collapse,
      THEN conjunct2, THEN conjunct1]
  from t n i k have
    "tokenExpiry (fst (snd (authenticate None None (member JNull None)
         (nodeWorld 100000 [(30, Responds grantedBare)] [])))) \<noteq> Some (Date (100030 + 24 * 60 * 60 * 1000))
   \<and> \<not> isTokenValid (fst (snd (authenticate None None (member JNull None)
                         (nodeWorld 100000 [(30, Responds grantedBare)] []))))
                     (snd (snd (authenticate None None (member JNull None)
                         (nodeWorld 100000 [(30, Responds grantedBare)] []))))"
    by simp
  with b n o i show ?thesis by simp
qed

end
